theory Spec2Isabelle
  imports Main "HOL-Library.Word" "HOL-Library.AList" "HOL-Library.Multiset"
begin

section \<open>Values and documents\<close>

text \<open>
  The service (\<^verbatim>\<open>src/main.py\<close>) stores and returns documents: Python dictionaries from
  field names to values. The values that occur are the ones the request models declare
  (\<^verbatim>\<open>str\<close>, \<^verbatim>\<open>bool\<close>, \<^verbatim>\<open>None\<close>, lists), the timestamps the persistence gateway adds and
  the store's native identifier, \<^verbatim>\<open>bson.ObjectId\<close>.

  An \<^verbatim>\<open>ObjectId\<close> wraps a byte string: the 12 bytes the store generates for a new
  document, or whatever \<^verbatim>\<open>ObjectId(s)\<close> reads from a string. Two of them are equal when
  their bytes are. A timestamp is an integer (a point on the time line). A dictionary keeps insertion order and has each key
  once: it is an association list whose keys are distinct (\<open>wf_doc\<close>), read with
  \<^const>\<open>map_of\<close> and written with \<^const>\<open>AList.update\<close>, which replaces the value of
  a key in place and appends a new key at the end, as \<^verbatim>\<open>d[k] = v\<close> does.
\<close>

type_synonym byte = "8 word"

type_synonym objectid = "byte list"

datatype pyvalue =
    VNone
  | VStr string
  | VBool bool
  | VOid objectid
  | VTime int
  | VList "pyvalue list"

type_synonym document = "(string \<times> pyvalue) list"

definition wf_doc :: "document \<Rightarrow> bool" where
  "wf_doc d = distinct (map fst d)"

text \<open>\<^verbatim>\<open>d.get(k)\<close>: the value of the field, \<^verbatim>\<open>None\<close> when the field is missing.\<close>

definition dict_get :: "document \<Rightarrow> string \<Rightarrow> pyvalue" where
  "dict_get d k = (case map_of d k of None \<Rightarrow> VNone | Some v \<Rightarrow> v)"

text \<open>\<^verbatim>\<open>d.get(k, default)\<close>.\<close>

definition dict_get_default :: "document \<Rightarrow> string \<Rightarrow> pyvalue \<Rightarrow> pyvalue" where
  "dict_get_default d k dflt = (case map_of d k of None \<Rightarrow> dflt | Some v \<Rightarrow> v)"

section \<open>Errors\<close>

text \<open>
  Every exception the handlers can raise is a value. \<open>HTTPException\<close> is raised by the
  handlers themselves, with a status code and a detail string; \<open>RequestValidationError\<close>
  is what the framework raises when the body does not have the shape of the request model;
  \<open>InvalidId\<close> is raised by \<^verbatim>\<open>ObjectId(s)\<close> on a malformed string; \<open>TypeError\<close> and
  \<open>KeyError\<close> are Python's own; \<open>DuplicateKeyError\<close> is the store refusing a second
  document with the same \<^verbatim>\<open>_id\<close>.
\<close>

datatype error =
    HTTPException nat string
  | RequestValidationError
  | InvalidId
  | TypeError
  | KeyError
  | DuplicateKeyError

text \<open>
  The status the framework answers with: an \<open>HTTPException\<close> carries its own, a body of
  the wrong shape is 422, and any other exception escapes the handler and is reported as
  an internal server error.
\<close>

fun status_code :: "error \<Rightarrow> nat" where
  "status_code (HTTPException c _) = c"
| "status_code RequestValidationError = 422"
| "status_code _ = 500"

definition client_error :: "error \<Rightarrow> bool" where
  "client_error e = (400 \<le> status_code e \<and> status_code e < 500)"

section \<open>Native identifiers and their string form\<close>

text \<open>
  \<^verbatim>\<open>str(oid)\<close> is \<^verbatim>\<open>binascii.hexlify\<close> of the bytes: two lowercase hexadecimal digits
  per byte.
\<close>

definition hex_char :: "nat \<Rightarrow> char" where
  "hex_char n = ''0123456789abcdef'' ! (n mod 16)"

definition hex_byte :: "byte \<Rightarrow> string" where
  "hex_byte b = [hex_char (unat b div 16), hex_char (unat b mod 16)]"

definition str_oid :: "objectid \<Rightarrow> string" where
  "str_oid bs = concat (map hex_byte bs)"

text \<open>
  \<^verbatim>\<open>ObjectId(s)\<close> on a string, as the library has it:
  \<^verbatim>\<open>
  if len(oid) == 24:
      try:
          self.__id = bytes.fromhex(oid)
      except (TypeError, ValueError):
          _raise_invalid_id(oid)
  else:
      _raise_invalid_id(oid)
  \<close>
  \<^verbatim>\<open>bytes.fromhex\<close> reads two hexadecimal digits (either case) per byte and skips ASCII
  whitespace before a byte, not between its two digits; any other character, and a digit
  left alone at the end, is a \<^verbatim>\<open>ValueError\<close>. So a string of 24 hexadecimal digits gives
  12 bytes, and a string of 24 characters some of which are whitespace gives fewer; both
  are accepted.
\<close>

definition hex_val :: "char \<Rightarrow> nat option" where
  "hex_val c =
     (let n = (of_char c :: nat) in
      if 48 \<le> n \<and> n \<le> 57 then Some (n - 48)
      else if 97 \<le> n \<and> n \<le> 102 then Some (n - 87)
      else if 65 \<le> n \<and> n \<le> 70 then Some (n - 55)
      else None)"

definition is_space :: "char \<Rightarrow> bool" where
  "is_space c = (let n = (of_char c :: nat) in n = 32 \<or> (9 \<le> n \<and> n \<le> 13))"

fun fromhex :: "string \<Rightarrow> byte list option" where
  "fromhex [] = Some []"
| "fromhex [c] = (if is_space c then Some [] else None)"
| "fromhex (c # d # cs) =
     (if is_space c then fromhex (d # cs)
      else
        (case hex_val c of
           None \<Rightarrow> None
         | Some hi \<Rightarrow>
             (case hex_val d of
                None \<Rightarrow> None
              | Some lo \<Rightarrow>
                  (case fromhex cs of
                     None \<Rightarrow> None
                   | Some bs \<Rightarrow> Some (of_nat (16 * hi + lo) # bs)))))"

definition ObjectId :: "string \<Rightarrow> error + objectid" where
  "ObjectId s =
     (if length s = 24
      then (case fromhex s of None \<Rightarrow> Inl InvalidId | Some bs \<Rightarrow> Inr bs)
      else Inl InvalidId)"

text \<open>
  The identifier the store generates for a new document is 12 bytes. It is an input of
  the model, a 96-bit word; \<open>oid_bytes\<close> are its bytes, most significant first.
\<close>

type_synonym generated_id = "96 word"

fun be_bytes :: "nat \<Rightarrow> nat \<Rightarrow> byte list" where
  "be_bytes 0 n = []"
| "be_bytes (Suc k) n = be_bytes k (n div 256) @ [of_nat (n mod 256)]"

definition oid_bytes :: "generated_id \<Rightarrow> objectid" where
  "oid_bytes w = be_bytes 12 (unat w)"

text \<open>The number a byte string denotes, to tell generated identifiers apart.\<close>

definition nat_of_bytes :: "byte list \<Rightarrow> nat" where
  "nat_of_bytes bs = foldl (\<lambda>a b. 256 * a + unat b) 0 bs"

section \<open>The identifier normalizer\<close>

text \<open>
  \<^verbatim>\<open>
  def oid_str(value):
      if isinstance(value, ObjectId):
          return str(value)
      return value
  \<close>
\<close>

fun is_ObjectId :: "pyvalue \<Rightarrow> bool" where
  "is_ObjectId (VOid _) = True"
| "is_ObjectId _ = False"

fun oid_str :: "pyvalue \<Rightarrow> pyvalue" where
  "oid_str (VOid w) = VStr (str_oid w)"
| "oid_str v = v"

text \<open>
  \<^verbatim>\<open>
  def serialize(doc):
      if not doc:
          return doc
      out = {}
      for k, v in doc.items():
          if k == "_id":
              out["id"] = oid_str(v)
          elif isinstance(v, ObjectId):
              out[k] = oid_str(v)
          else:
              out[k] = v
      return out
  \<close>
  \<open>serialize_step\<close> is the body of the loop, \<open>serialize_dict\<close> the function on a
  dictionary (the empty one is falsy and is returned as it is) and \<open>serialize\<close> the
  function on what \<^verbatim>\<open>find_one\<close> returns, a dictionary or \<^verbatim>\<open>None\<close>.
\<close>

definition serialize_step :: "string \<times> pyvalue \<Rightarrow> document \<Rightarrow> document" where
  "serialize_step kv out =
     (case kv of (k, v) \<Rightarrow>
        if k = ''_id'' then AList.update ''id'' (oid_str v) out
        else if is_ObjectId v then AList.update k (oid_str v) out
        else AList.update k v out)"

definition serialize_dict :: "document \<Rightarrow> document" where
  "serialize_dict doc = (if doc = [] then doc else fold serialize_step doc [])"

definition serialize :: "document option \<Rightarrow> document option" where
  "serialize doc = (case doc of None \<Rightarrow> None | Some d \<Rightarrow> Some (serialize_dict d))"

text \<open>
  What one field of the input becomes: \<^verbatim>\<open>_id\<close> is renamed, a native identifier is
  replaced by its string form.
\<close>

definition out_key :: "string \<Rightarrow> string" where
  "out_key k = (if k = ''_id'' then ''id'' else k)"

definition out_field :: "string \<times> pyvalue \<Rightarrow> string \<times> pyvalue" where
  "out_field kv = (out_key (fst kv), oid_str (snd kv))"

section \<open>Python operators on values\<close>

text \<open>
  \<^verbatim>\<open>x in c\<close>: membership in a list compares with \<^verbatim>\<open>==\<close>, which on these values is
  equality; in a string it is the substring test and needs a string on the left; any other
  container here is not iterable and the test raises \<^verbatim>\<open>TypeError\<close>.
\<close>

fun is_infix :: "string \<Rightarrow> string \<Rightarrow> bool" where
  "is_infix s [] = (s = [])"
| "is_infix s (c # cs) = (take (length s) (c # cs) = s \<or> is_infix s cs)"

fun py_contains :: "pyvalue \<Rightarrow> pyvalue \<Rightarrow> error + bool" where
  "py_contains x (VList xs) = Inr (x \<in> set xs)"
| "py_contains (VStr s) (VStr t) = Inr (is_infix s t)"
| "py_contains x c = Inl TypeError"

text \<open>
  \<^verbatim>\<open>a < b\<close>, the only comparison \<^verbatim>\<open>sorted\<close> makes. Two timestamps, two strings, two
  booleans, two identifiers (by their bytes) compare; two lists compare at the first position where they
  differ; everything else, \<^verbatim>\<open>None\<close> included, raises \<^verbatim>\<open>TypeError\<close>.
\<close>

fun str_lt :: "string \<Rightarrow> string \<Rightarrow> bool" where
  "str_lt [] [] = False"
| "str_lt [] (y # ys) = True"
| "str_lt (x # xs) [] = False"
| "str_lt (x # xs) (y # ys) =
     (if (of_char x :: nat) < of_char y then True
      else if (of_char y :: nat) < of_char x then False
      else str_lt xs ys)"

fun bytes_lt :: "byte list \<Rightarrow> byte list \<Rightarrow> bool" where
  "bytes_lt [] [] = False"
| "bytes_lt [] (y # ys) = True"
| "bytes_lt (x # xs) [] = False"
| "bytes_lt (x # xs) (y # ys) = (if x < y then True else if y < x then False else bytes_lt xs ys)"

fun py_lt :: "pyvalue \<Rightarrow> pyvalue \<Rightarrow> error + bool"
  and py_lt_list :: "pyvalue list \<Rightarrow> pyvalue list \<Rightarrow> error + bool" where
  "py_lt (VTime a) (VTime b) = Inr (a < b)"
| "py_lt (VStr a) (VStr b) = Inr (str_lt a b)"
| "py_lt (VBool a) (VBool b) = Inr (\<not> a \<and> b)"
| "py_lt (VOid a) (VOid b) = Inr (bytes_lt a b)"
| "py_lt (VList a) (VList b) = py_lt_list a b"
| "py_lt a b = Inl TypeError"
| "py_lt_list [] [] = Inr False"
| "py_lt_list [] (y # ys) = Inr True"
| "py_lt_list (x # xs) [] = Inr False"
| "py_lt_list (x # xs) (y # ys) = (if x = y then py_lt_list xs ys else py_lt x y)"

text \<open>
  \<^verbatim>\<open>sorted(docs, key=f)\<close> is a stable sort that compares keys with \<^verbatim>\<open><\<close>: an insertion
  sort that puts an element before the first one that is not smaller, and stops with the
  error of the first comparison that raises. \<^verbatim>\<open>reverse=True\<close> keeps the original order
  of equal elements: the list is reversed, sorted and reversed again.
\<close>

fun py_insort :: "(document \<Rightarrow> pyvalue) \<Rightarrow> document \<Rightarrow> document list \<Rightarrow> error + document list" where
  "py_insort key x [] = Inr [x]"
| "py_insort key x (y # ys) =
     (case py_lt (key y) (key x) of
        Inl e \<Rightarrow> Inl e
      | Inr lt \<Rightarrow>
          if lt then (case py_insort key x ys of Inl e \<Rightarrow> Inl e | Inr zs \<Rightarrow> Inr (y # zs))
          else Inr (x # y # ys))"

fun py_sorted :: "(document \<Rightarrow> pyvalue) \<Rightarrow> document list \<Rightarrow> error + document list" where
  "py_sorted key [] = Inr []"
| "py_sorted key (x # xs) =
     (case py_sorted key xs of Inl e \<Rightarrow> Inl e | Inr ys \<Rightarrow> py_insort key x ys)"

definition py_sorted_reverse :: "(document \<Rightarrow> pyvalue) \<Rightarrow> document list \<Rightarrow> error + document list" where
  "py_sorted_reverse key xs =
     (case py_sorted key (rev xs) of Inl e \<Rightarrow> Inl e | Inr ys \<Rightarrow> Inr (rev ys))"

section \<open>The document store\<close>

text \<open>
  The store is a database of named collections, each a sequence of documents in insertion
  order. A query is a dictionary from field names to conditions; the handlers use equality
  conditions and one regular-expression condition. A field equals a value when it holds
  it or is an array that contains it; an absent field equals \<^verbatim>\<open>None\<close>. Regular-expression
  matching is the store's own and is a parameter \<open>rx\<close> of the model: \<open>rx pat opts s\<close>
  says whether the string \<open>s\<close> matches the pattern under the options.
\<close>

type_synonym database = "string \<Rightarrow> document list"

type_synonym regex_engine = "string \<Rightarrow> string \<Rightarrow> string \<Rightarrow> bool"

datatype cond = Eq pyvalue | Regex string string

type_synonym query = "(string \<times> cond) list"

fun match_eq :: "pyvalue option \<Rightarrow> pyvalue \<Rightarrow> bool" where
  "match_eq None v = (v = VNone)"
| "match_eq (Some (VList xs)) v = (VList xs = v \<or> v \<in> set xs)"
| "match_eq (Some fv) v = (fv = v)"

fun match_regex :: "regex_engine \<Rightarrow> string \<Rightarrow> string \<Rightarrow> pyvalue \<Rightarrow> bool" where
  "match_regex rx pat opts (VStr s) = rx pat opts s"
| "match_regex rx pat opts v = False"

fun match_cond :: "regex_engine \<Rightarrow> document \<Rightarrow> string \<times> cond \<Rightarrow> bool" where
  "match_cond rx d (k, Eq v) = match_eq (map_of d k) v"
| "match_cond rx d (k, Regex pat opts) =
     (case map_of d k of
        None \<Rightarrow> False
      | Some (VList xs) \<Rightarrow> list_ex (match_regex rx pat opts) xs
      | Some v \<Rightarrow> match_regex rx pat opts v)"

definition matches :: "regex_engine \<Rightarrow> query \<Rightarrow> document \<Rightarrow> bool" where
  "matches rx q d = list_all (match_cond rx d) q"

text \<open>
  The handlers look a document up by its identifier only. The store does not allow an
  array as \<^verbatim>\<open>_id\<close>, so that match is equality with the value of the field.
  \<^verbatim>\<open>db[name].find_one({"_id": ident})\<close> is the first document that matches, or
  \<^verbatim>\<open>None\<close>.
\<close>

definition has_id :: "pyvalue \<Rightarrow> document \<Rightarrow> bool" where
  "has_id ident d = (map_of d ''_id'' = Some ident)"

definition find_one :: "string \<Rightarrow> pyvalue \<Rightarrow> database \<Rightarrow> document option" where
  "find_one name ident db = List.find (has_id ident) (db name)"

text \<open>
  \<^verbatim>\<open>db[name].update_one({"_id": ident}, {"$set": {field: x}})\<close>: the first document that
  matches gets the field set; when no document matches nothing changes.
\<close>

fun update_first :: "(document \<Rightarrow> bool) \<Rightarrow> (document \<Rightarrow> document) \<Rightarrow> document list \<Rightarrow> document list" where
  "update_first P f [] = []"
| "update_first P f (d # ds) = (if P d then f d # ds else d # update_first P f ds)"

definition update_one :: "string \<Rightarrow> pyvalue \<Rightarrow> string \<Rightarrow> pyvalue \<Rightarrow> database \<Rightarrow> database" where
  "update_one name ident field x db =
     db(name := update_first (has_id ident) (AList.update field x) (db name))"

text \<open>
  \<^verbatim>\<open>db[name].insert_one(doc)\<close> for a document without an \<^verbatim>\<open>_id\<close> field: the document is
  stored under the identifier \<open>oid\<close> generated for it, as its first field, at the end of
  the collection. The store keeps \<^verbatim>\<open>_id\<close> unique within a collection: an identifier that
  is already there is refused and nothing is stored.
\<close>

definition insert_one :: "string \<Rightarrow> document \<Rightarrow> generated_id \<Rightarrow> database \<Rightarrow> (error + objectid) \<times> database" where
  "insert_one name doc oid db =
     (if list_ex (has_id (VOid (oid_bytes oid))) (db name)
      then (Inl DuplicateKeyError, db)
      else (Inr (oid_bytes oid),
            db(name := db name @ [(''_id'', VOid (oid_bytes oid)) # doc])))"

section \<open>The persistence gateway\<close>

text \<open>
  Modelled from the spec: \<^verbatim>\<open>database.py\<close>, which defines \<^verbatim>\<open>db\<close>, \<^verbatim>\<open>create_document\<close> and
  \<^verbatim>\<open>get_documents\<close>, is not among the sources. The specification describes the gateway as
  a thin wrapper exposing "insert one, return new id" and "find many matching filter"
  against named collections; the timestamps are "store-assigned at creation"
  (\<^verbatim>\<open>created_at\<close>) and "set implicitly on chat creation" (\<^verbatim>\<open>updated_at\<close>). The wrapper has
  no logic of its own per collection, so both timestamps are set on every document it
  inserts, to the time \<open>now\<close> of the call. The new id is returned in string form, which
  is what the handlers pass to \<^verbatim>\<open>ObjectId\<close>.
\<close>

definition create_document :: "string \<Rightarrow> document \<Rightarrow> int \<Rightarrow> generated_id \<Rightarrow> database \<Rightarrow> (error + string) \<times> database" where
  "create_document name data now oid db =
     (let d1 = AList.update ''created_at'' (VTime now) data;
          d2 = AList.update ''updated_at'' (VTime now) d1
      in case insert_one name d2 oid db of
           (Inl e, db') \<Rightarrow> (Inl e, db')
         | (Inr i, db') \<Rightarrow> (Inr (str_oid i), db'))"

text \<open>The document a call of \<open>create_document\<close> stores.\<close>

definition stored_doc :: "document \<Rightarrow> int \<Rightarrow> generated_id \<Rightarrow> document" where
  "stored_doc data now oid =
     (''_id'', VOid (oid_bytes oid)) #
       AList.update ''updated_at'' (VTime now) (AList.update ''created_at'' (VTime now) data)"

text \<open>
  Modelled from the spec: \<^verbatim>\<open>get_documents\<close> of \<^verbatim>\<open>database.py\<close>, "find many matching
  filter": the documents of the collection that match the query, in the order of the
  collection.
\<close>

definition get_documents :: "regex_engine \<Rightarrow> string \<Rightarrow> query \<Rightarrow> database \<Rightarrow> document list" where
  "get_documents rx name q db = filter (matches rx q) (db name)"

section \<open>Request models\<close>

text \<open>
  \<^verbatim>\<open>
  class CreateUser(BaseModel):
      name: str
      avatar: Optional[str] = None
      status: Optional[str] = "Hey there! I am using VibeChat"

  class CreateChat(BaseModel):
      participants: List[str] = Field(..., description="List of user IDs")
      title: Optional[str] = None
      is_group: bool = False

  class CreateMessage(BaseModel):
      chat_id: str
      sender_id: str
      content: str
      type: str = "text"
  \<close>
  A validated payload is a record. \<^verbatim>\<open>model_dump()\<close> is the dictionary of its fields in
  the order of declaration.
\<close>

record CreateUser =
  name :: string
  avatar :: "string option"
  status :: "string option"

record CreateChat =
  participants :: "string list"
  title :: "string option"
  is_group :: bool

record CreateMessage =
  chat_id :: string
  sender_id :: string
  content :: string
  msg_type :: string

fun opt_str :: "string option \<Rightarrow> pyvalue" where
  "opt_str None = VNone"
| "opt_str (Some s) = VStr s"

definition CreateUser_dump :: "CreateUser \<Rightarrow> document" where
  "CreateUser_dump p =
     [(''name'', VStr (name p)), (''avatar'', opt_str (avatar p)), (''status'', opt_str (status p))]"

definition CreateChat_dump :: "CreateChat \<Rightarrow> document" where
  "CreateChat_dump p =
     [(''participants'', VList (map VStr (participants p))), (''title'', opt_str (title p)),
      (''is_group'', VBool (is_group p))]"

definition CreateMessage_dump :: "CreateMessage \<Rightarrow> document" where
  "CreateMessage_dump p =
     [(''chat_id'', VStr (chat_id p)), (''sender_id'', VStr (sender_id p)),
      (''content'', VStr (content p)), (''type'', VStr (msg_type p))]"

text \<open>
  The framework builds the payload from the request body before the handler runs. A body
  is the record of the fields it has, each of the declared type when present: a field
  without a default is required and its absence is the shape error (status 422); an absent
  field with a default gets the default. The declarations put no constraint on the values
  themselves: no minimal length on a string or on a list.
\<close>

record CreateChat_body =
  body_participants :: "string list option"
  body_title :: "string option"
  body_is_group :: "bool option"

record CreateMessage_body =
  body_chat_id :: "string option"
  body_sender_id :: "string option"
  body_content :: "string option"
  body_type :: "string option"

definition CreateChat_validate :: "CreateChat_body \<Rightarrow> error + CreateChat" where
  "CreateChat_validate b =
     (case body_participants b of
        None \<Rightarrow> Inl RequestValidationError
      | Some ps \<Rightarrow>
          Inr \<lparr>participants = ps, title = body_title b,
               is_group = (case body_is_group b of None \<Rightarrow> False | Some g \<Rightarrow> g)\<rparr>)"

definition CreateMessage_validate :: "CreateMessage_body \<Rightarrow> error + CreateMessage" where
  "CreateMessage_validate b =
     (case (body_chat_id b, body_sender_id b, body_content b) of
        (Some c, Some s, Some t) \<Rightarrow>
          Inr \<lparr>chat_id = c, sender_id = s, content = t,
               msg_type = (case body_type b of None \<Rightarrow> ''text'' | Some ty \<Rightarrow> ty)\<rparr>
      | _ \<Rightarrow> Inl RequestValidationError)"

section \<open>The handlers\<close>

text \<open>
  A handler that writes takes the store and returns its result, or the exception it
  raised, together with the store as it is afterwards: an exception does not undo a write
  made before it. The time of the call and the identifier the store generates for a new
  document are inputs.

  \<^verbatim>\<open>
  def list_users(q: Optional[str] = Query(None, ...)):
      filter_dict = {}
      if q:
          filter_dict = {"name": {"$regex": q, "$options": "i"}}
      docs = get_documents("user", filter_dict)
      return [serialize(d) for d in docs]
  \<close>
  \<^verbatim>\<open>if q\<close> is false for \<^verbatim>\<open>None\<close> and for the empty string.
\<close>

definition list_users :: "regex_engine \<Rightarrow> string option \<Rightarrow> database \<Rightarrow> document list" where
  "list_users rx q db =
     (let filter_dict =
            (case q of
               None \<Rightarrow> []
             | Some s \<Rightarrow> if s = [] then [] else [(''name'', Regex s ''i'')]);
          docs = get_documents rx ''user'' filter_dict db
      in map serialize_dict docs)"

text \<open>
  \<^verbatim>\<open>
  def create_user(payload: CreateUser):
      user_id = create_document("user", payload.model_dump())
      doc = db["user"].find_one({"_id": ObjectId(user_id)})
      return serialize(doc)
  \<close>
\<close>

definition create_user :: "CreateUser \<Rightarrow> int \<Rightarrow> generated_id \<Rightarrow> database \<Rightarrow> (error + document option) \<times> database" where
  "create_user payload now oid db =
     (case create_document ''user'' (CreateUser_dump payload) now oid db of
        (Inl e, db1) \<Rightarrow> (Inl e, db1)
      | (Inr user_id, db1) \<Rightarrow>
          (case ObjectId user_id of
             Inl e \<Rightarrow> (Inl e, db1)
           | Inr i \<Rightarrow> (Inr (serialize (find_one ''user'' (VOid i) db1)), db1)))"

text \<open>
  \<^verbatim>\<open>
  def list_chats(user_id: str = Query(...)):
      docs = get_documents("chat", {"participants": user_id})
      docs = sorted(docs, key=lambda d: d.get("updated_at"), reverse=True)
      return [serialize(d) for d in docs]
  \<close>
\<close>

definition list_chats :: "regex_engine \<Rightarrow> string \<Rightarrow> database \<Rightarrow> error + document list" where
  "list_chats rx user_id db =
     (let docs = get_documents rx ''chat'' [(''participants'', Eq (VStr user_id))] db
      in case py_sorted_reverse (\<lambda>d. dict_get d ''updated_at'') docs of
           Inl e \<Rightarrow> Inl e
         | Inr docs' \<Rightarrow> Inr (map serialize_dict docs'))"

text \<open>
  \<^verbatim>\<open>
  def create_chat(payload: CreateChat):
      if len(payload.participants) < 2 and not payload.is_group:
          raise HTTPException(status_code=400, detail="A direct chat requires 2 participants")
      chat_id = create_document("chat", payload.model_dump())
      doc = db["chat"].find_one({"_id": ObjectId(chat_id)})
      return serialize(doc)
  \<close>
\<close>

definition create_chat :: "CreateChat \<Rightarrow> int \<Rightarrow> generated_id \<Rightarrow> database \<Rightarrow> (error + document option) \<times> database" where
  "create_chat payload now oid db =
     (if length (participants payload) < 2 \<and> \<not> is_group payload
      then (Inl (HTTPException 400 ''A direct chat requires 2 participants''), db)
      else
        (case create_document ''chat'' (CreateChat_dump payload) now oid db of
           (Inl e, db1) \<Rightarrow> (Inl e, db1)
         | (Inr cid, db1) \<Rightarrow>
             (case ObjectId cid of
                Inl e \<Rightarrow> (Inl e, db1)
              | Inr i \<Rightarrow> (Inr (serialize (find_one ''chat'' (VOid i) db1)), db1))))"

text \<open>
  \<^verbatim>\<open>
  def list_messages(chat_id: str = Query(...)):
      docs = get_documents("message", {"chat_id": chat_id})
      docs = sorted(docs, key=lambda d: d.get("created_at"))
      return [serialize(d) for d in docs]
  \<close>
\<close>

definition list_messages :: "regex_engine \<Rightarrow> string \<Rightarrow> database \<Rightarrow> error + document list" where
  "list_messages rx cid db =
     (let docs = get_documents rx ''message'' [(''chat_id'', Eq (VStr cid))] db
      in case py_sorted (\<lambda>d. dict_get d ''created_at'') docs of
           Inl e \<Rightarrow> Inl e
         | Inr docs' \<Rightarrow> Inr (map serialize_dict docs'))"

text \<open>
  \<^verbatim>\<open>
  def send_message(payload: CreateMessage):
      chat = db["chat"].find_one({"_id": ObjectId(payload.chat_id)})
      if not chat:
          raise HTTPException(status_code=404, detail="Chat not found")
      if payload.sender_id not in chat.get("participants", []):
          raise HTTPException(status_code=403, detail="Sender not part of this chat")

      msg_id = create_document("message", payload.model_dump())
      db["chat"].update_one({"_id": chat["_id"]}, {"$set": {"updated_at":
          db["message"].find_one({"_id": ObjectId(msg_id)})["created_at"]}})

      doc = db["message"].find_one({"_id": ObjectId(msg_id)})
      return serialize(doc)
  \<close>
  \<open>message_created_at\<close> is the expression
  \<^verbatim>\<open>db["message"].find_one({"_id": ObjectId(msg_id)})["created_at"]\<close>: subscripting
  \<^verbatim>\<open>None\<close> raises \<^verbatim>\<open>TypeError\<close>, a missing key raises \<^verbatim>\<open>KeyError\<close>.
\<close>

definition message_created_at :: "string \<Rightarrow> database \<Rightarrow> error + pyvalue" where
  "message_created_at msg_id db =
     (case ObjectId msg_id of
        Inl e \<Rightarrow> Inl e
      | Inr i \<Rightarrow>
          (case find_one ''message'' (VOid i) db of
             None \<Rightarrow> Inl TypeError
           | Some m \<Rightarrow>
               (case map_of m ''created_at'' of None \<Rightarrow> Inl KeyError | Some t \<Rightarrow> Inr t)))"

definition send_message :: "CreateMessage \<Rightarrow> int \<Rightarrow> generated_id \<Rightarrow> database \<Rightarrow> (error + document option) \<times> database" where
  "send_message payload now oid db =
     (case ObjectId (chat_id payload) of
        Inl e \<Rightarrow> (Inl e, db)
      | Inr c \<Rightarrow>
          (case find_one ''chat'' (VOid c) db of
             None \<Rightarrow> (Inl (HTTPException 404 ''Chat not found''), db)
           | Some chat \<Rightarrow>
               if chat = [] then (Inl (HTTPException 404 ''Chat not found''), db)
               else
                 (case py_contains (VStr (sender_id payload))
                         (dict_get_default chat ''participants'' (VList [])) of
                    Inl e \<Rightarrow> (Inl e, db)
                  | Inr is_in \<Rightarrow>
                      if \<not> is_in
                      then (Inl (HTTPException 403 ''Sender not part of this chat''), db)
                      else
                        (case create_document ''message'' (CreateMessage_dump payload) now oid db of
                           (Inl e, db1) \<Rightarrow> (Inl e, db1)
                         | (Inr msg_id, db1) \<Rightarrow>
                             (case map_of chat ''_id'' of
                                None \<Rightarrow> (Inl KeyError, db1)
                              | Some chat_oid \<Rightarrow>
                                  (case message_created_at msg_id db1 of
                                     Inl e \<Rightarrow> (Inl e, db1)
                                   | Inr t \<Rightarrow>
                                       (let db2 = update_one ''chat'' chat_oid ''updated_at'' t db1
                                        in case ObjectId msg_id of
                                             Inl e \<Rightarrow> (Inl e, db2)
                                           | Inr i \<Rightarrow>
                                               (Inr (serialize
                                                  (find_one ''message'' (VOid i) db2)),
                                                db2))))))))"

text \<open>The two endpoints that take a body: shape validation, then the handler.\<close>

definition post_chats :: "CreateChat_body \<Rightarrow> int \<Rightarrow> generated_id \<Rightarrow> database \<Rightarrow> (error + document option) \<times> database" where
  "post_chats body now oid db =
     (case CreateChat_validate body of
        Inl e \<Rightarrow> (Inl e, db)
      | Inr payload \<Rightarrow> create_chat payload now oid db)"

definition post_messages :: "CreateMessage_body \<Rightarrow> int \<Rightarrow> generated_id \<Rightarrow> database \<Rightarrow> (error + document option) \<times> database" where
  "post_messages body now oid db =
     (case CreateMessage_validate body of
        Inl e \<Rightarrow> (Inl e, db)
      | Inr payload \<Rightarrow> send_message payload now oid db)"

text \<open>
  The store after a successful \<open>send_message\<close>: the message stored, then the chat
  \<open>c\<close> touched.
\<close>

definition after_send :: "CreateMessage \<Rightarrow> int \<Rightarrow> generated_id \<Rightarrow> objectid \<Rightarrow> database \<Rightarrow> database" where
  "after_send p now oid c db =
     update_one ''chat'' (VOid c) ''updated_at'' (VTime now)
       (db(''message'' := db ''message'' @ [stored_doc (CreateMessage_dump p) now oid]))"

section \<open>Stores the service produces\<close>

text \<open>
  The gateway stamps every document it inserts, and the only update the handlers make sets
  a chat's \<^verbatim>\<open>updated_at\<close> to a message's \<^verbatim>\<open>created_at\<close>. So in every store the
  handlers produce, each message carries a timestamp in \<^verbatim>\<open>created_at\<close> and each chat one
  in \<^verbatim>\<open>updated_at\<close>, and each document is a dictionary (\<open>wf_store\<close>). \<open>reachable\<close> are
  the stores the writing handlers produce from the empty store, whatever the payloads, the
  times and the generated identifiers, and whether or not a call succeeds.
\<close>

fun is_time :: "pyvalue \<Rightarrow> bool" where
  "is_time (VTime _) = True"
| "is_time _ = False"

fun time_of :: "pyvalue \<Rightarrow> int" where
  "time_of (VTime t) = t"
| "time_of _ = 0"

text \<open>\<open>not_after a b\<close>: both are timestamps and \<open>a\<close> is not later than \<open>b\<close>.\<close>

fun not_after :: "pyvalue \<Rightarrow> pyvalue \<Rightarrow> bool" where
  "not_after (VTime s) (VTime t) = (s \<le> t)"
| "not_after _ _ = False"

definition stamped :: "string \<Rightarrow> document \<Rightarrow> bool" where
  "stamped field d = (wf_doc d \<and> is_time (dict_get d field))"

definition wf_store :: "database \<Rightarrow> bool" where
  "wf_store db =
     (list_all (stamped ''created_at'') (db ''message'') \<and>
      list_all (stamped ''updated_at'') (db ''chat''))"

inductive reachable :: "database \<Rightarrow> bool" where
  reachable_empty: "reachable (\<lambda>_. [])"
| reachable_create_user: "reachable db \<Longrightarrow> reachable (snd (create_user p now oid db))"
| reachable_create_chat: "reachable db \<Longrightarrow> reachable (snd (create_chat c now oid db))"
| reachable_send_message: "reachable db \<Longrightarrow> reachable (snd (send_message m now oid db))"

section \<open>Example data\<close>

text \<open>
  A store with one direct chat between \<^verbatim>\<open>A\<close> and \<^verbatim>\<open>B\<close>, created at time 10 under the
  identifier 1, and a message payload for it.
\<close>

definition db_empty :: database where
  "db_empty = (\<lambda>_. [])"

definition chat_AB :: document where
  "chat_AB =
     [(''_id'', VOid (oid_bytes 1)), (''participants'', VList [VStr ''A'', VStr ''B'']),
      (''title'', VNone),
      (''is_group'', VBool False), (''created_at'', VTime 10), (''updated_at'', VTime 10)]"

definition db_one_chat :: database where
  "db_one_chat = db_empty(''chat'' := [chat_AB])"

definition msg_hi :: CreateMessage where
  "msg_hi = \<lparr>chat_id = ''000000000000000000000001'', sender_id = ''A'', content = ''hi'',
            msg_type = ''text''\<rparr>"

text \<open>A chat document that has no \<^verbatim>\<open>participants\<close> field.\<close>

definition chat_bare :: document where
  "chat_bare = [(''_id'', VOid (oid_bytes 1)), (''title'', VStr ''general'')]"

text \<open>
  A store with two chats of \<^verbatim>\<open>A\<close> and two messages in the first chat; each collection
  holds its documents in the opposite order of its listing.
\<close>

definition chat_AC :: document where
  "chat_AC =
     [(''_id'', VOid (oid_bytes 2)), (''participants'', VList [VStr ''A'', VStr ''C'']),
      (''title'', VNone),
      (''is_group'', VBool False), (''created_at'', VTime 30), (''updated_at'', VTime 30)]"

definition message_late :: document where
  "message_late =
     [(''_id'', VOid (oid_bytes 8)), (''chat_id'', VStr ''000000000000000000000001''),
      (''sender_id'', VStr ''B''), (''content'', VStr ''yo''), (''type'', VStr ''text''),
      (''created_at'', VTime 25), (''updated_at'', VTime 25)]"

definition message_early :: document where
  "message_early =
     [(''_id'', VOid (oid_bytes 7)), (''chat_id'', VStr ''000000000000000000000001''),
      (''sender_id'', VStr ''A''), (''content'', VStr ''hi''), (''type'', VStr ''text''),
      (''created_at'', VTime 20), (''updated_at'', VTime 20)]"

definition db_history :: database where
  "db_history = db_empty(''chat'' := [chat_AB, chat_AC], ''message'' := [message_late, message_early])"

definition no_regex :: regex_engine where
  "no_regex pat opts s = False"

section \<open>Identifiers: parsing the string form gives the identifier back\<close>

lemma hex_val_hex_char_all: "list_all (\<lambda>m. hex_val (hex_char m) = Some m) [0..<16]"
  by code_simp

lemma hex_val_hex_char: "hex_val (hex_char n) = Some (n mod 16)"
proof -
  have "n mod 16 \<in> set [0..<16]" by simp
  with hex_val_hex_char_all have "hex_val (hex_char (n mod 16)) = Some (n mod 16)"
    unfolding list_all_iff by blast
  then show ?thesis by (simp add: hex_char_def)
qed

lemma not_space_hex_char_all: "list_all (\<lambda>m. \<not> is_space (hex_char m)) [0..<16]"
  by code_simp

lemma not_space_hex_char: "\<not> is_space (hex_char n)"
proof -
  have "n mod 16 \<in> set [0..<16]" by simp
  with not_space_hex_char_all have "\<not> is_space (hex_char (n mod 16))"
    unfolding list_all_iff by blast
  then show ?thesis by (simp add: hex_char_def)
qed

lemma byte_of_digits: "(of_nat (16 * (unat b div 16 mod 16) + unat b mod 16) :: byte) = b"
proof -
  have "unat b < 256" using unsigned_less [of b, where 'a = nat] by simp
  then have "unat b div 16 mod 16 = unat b div 16" by simp
  then have "16 * (unat b div 16 mod 16) + unat b mod 16 = unat b" by simp
  then show ?thesis by simp
qed

lemma fromhex_str_oid: "fromhex (str_oid bs) = Some bs"
proof (induction bs)
  case Nil
  show ?case by (simp add: str_oid_def)
next
  case (Cons b bs)
  have "str_oid (b # bs) = hex_char (unat b div 16) # hex_char (unat b mod 16) # str_oid bs"
    by (simp add: str_oid_def hex_byte_def)
  with Cons show ?case
    by (simp add: not_space_hex_char hex_val_hex_char byte_of_digits
        del: of_nat_add of_nat_mult)
qed

lemma length_str_oid: "length (str_oid bs) = 2 * length bs"
  by (induction bs) (simp_all add: str_oid_def hex_byte_def)

lemma ObjectId_str_oid: "length bs = 12 \<Longrightarrow> ObjectId (str_oid bs) = Inr bs"
  by (simp add: ObjectId_def length_str_oid fromhex_str_oid)

lemma length_be_bytes: "length (be_bytes k n) = k"
  by (induction k arbitrary: n) simp_all

lemma length_oid_bytes: "length (oid_bytes w) = 12"
  by (simp add: oid_bytes_def length_be_bytes)

lemma ObjectId_generated: "ObjectId (str_oid (oid_bytes w)) = Inr (oid_bytes w)"
  by (simp add: ObjectId_str_oid length_oid_bytes)

text \<open>Distinct generated identifiers have distinct bytes.\<close>

lemma nat_of_bytes_be_bytes: "nat_of_bytes (be_bytes k n) = n mod 256 ^ k"
proof (induction k arbitrary: n)
  case 0
  show ?case by (simp add: nat_of_bytes_def)
next
  case (Suc k)
  have "unat (of_nat (n mod 256) :: byte) = n mod 256"
    by (simp add: unat_of_nat)
  then have "nat_of_bytes (be_bytes (Suc k) n) = 256 * (n div 256 mod 256 ^ k) + n mod 256"
    using Suc.IH [of "n div 256"] by (simp add: nat_of_bytes_def)
  also have "\<dots> = n mod (256 * 256 ^ k)"
    by (simp add: mod_mult2_eq)
  finally show ?case by simp
qed

lemma nat_of_oid_bytes: "nat_of_bytes (oid_bytes w) = unat w"
proof -
  have "unat w < 2 ^ 96" using unsigned_less [of w, where 'a = nat] by simp
  also have "(2::nat) ^ 96 = 256 ^ 12" by simp
  finally show ?thesis by (simp add: oid_bytes_def nat_of_bytes_be_bytes)
qed

lemma oid_bytes_eq: "(oid_bytes a = oid_bytes b) = (a = b)"
proof
  assume "oid_bytes a = oid_bytes b"
  then have "unat a = unat b" by (metis nat_of_oid_bytes)
  then have "(of_nat (unat a) :: generated_id) = of_nat (unat b)" by simp
  then show "a = b" by simp
qed simp

section \<open>Properties of the normalizer\<close>

lemma oid_str_other: "\<not> is_ObjectId v \<Longrightarrow> oid_str v = v"
  by (cases v) simp_all

lemma serialize_step_update:
  "serialize_step kv out = AList.update (fst (out_field kv)) (snd (out_field kv)) out"
  by (cases kv) (simp add: serialize_step_def out_field_def out_key_def oid_str_other)

lemma update_fresh: "k \<notin> fst ` set al \<Longrightarrow> AList.update k v al = al @ [(k, v)]"
  by (induction al) auto

lemma fst_out_field: "map fst (map out_field d) = map out_key (map fst d)"
  by (simp add: out_field_def comp_def)

text \<open>
  As long as no two fields land on the same output key, the loop appends one output
  field per input field, in order.
\<close>

lemma fold_serialize_step:
  "distinct (map fst (acc @ map out_field d)) \<Longrightarrow>
   fold serialize_step d acc = acc @ map out_field d"
proof (induction d arbitrary: acc)
  case Nil
  then show ?case by simp
next
  case (Cons kv d)
  have fresh: "fst (out_field kv) \<notin> fst ` set acc"
    using Cons.prems by auto
  have step: "serialize_step kv acc = acc @ [out_field kv]"
    by (simp add: serialize_step_update update_fresh fresh)
  have "distinct (map fst ((acc @ [out_field kv]) @ map out_field d))"
    using Cons.prems by simp
  from Cons.IH [OF this] show ?case
    by (simp add: step)
qed

lemma out_key_inj:
  assumes "\<not> (''_id'' \<in> set ks \<and> ''id'' \<in> set ks)"
  shows "inj_on out_key (set ks)"
proof (rule inj_onI)
  fix a b assume "a \<in> set ks" "b \<in> set ks" "out_key a = out_key b"
  with assms show "a = b"
    by (cases "a = ''_id''"; cases "b = ''_id''") (auto simp: out_key_def)
qed

lemma distinct_out_fields:
  assumes "wf_doc d" and "\<not> (''_id'' \<in> set (map fst d) \<and> ''id'' \<in> set (map fst d))"
  shows "distinct (map fst (map out_field d))"
  unfolding fst_out_field using assms(1) out_key_inj [OF assms(2)]
  by (simp only: wf_doc_def distinct_map)

lemma serialize_dict_map:
  assumes "wf_doc d" and "\<not> (''_id'' \<in> set (map fst d) \<and> ''id'' \<in> set (map fst d))"
  shows "serialize_dict d = map out_field d"
proof (cases "d = []")
  case True
  then show ?thesis by (simp add: serialize_dict_def)
next
  case False
  have "distinct (map fst ([] @ map out_field d))"
    using distinct_out_fields [OF assms] by simp
  from fold_serialize_step [OF this] False show ?thesis
    by (simp add: serialize_dict_def)
qed

lemma map_of_out_field:
  assumes "distinct (map fst (map out_field d))" and "map_of d k = Some v"
  shows "map_of (map out_field d) (out_key k) = Some (oid_str v)"
proof -
  have "(k, v) \<in> set d" using assms(2) by (rule map_of_SomeD)
  then have "out_field (k, v) \<in> set (map out_field d)"
    by simp
  then have "(out_key k, oid_str v) \<in> set (map out_field d)"
    by (simp add: out_field_def)
  with assms(1) show ?thesis by (rule map_of_is_SomeI)
qed

lemma map_of_out_field_None:
  assumes "map_of (map out_field d) k' \<noteq> None"
  shows "\<exists>k. k' = out_key k \<and> map_of d k \<noteq> None"
proof -
  from assms obtain v' where "map_of (map out_field d) k' = Some v'" by auto
  then have "(k', v') \<in> set (map out_field d)" by (rule map_of_SomeD)
  then obtain k v where kv: "(k, v) \<in> set d" and k': "k' = out_key k"
    by (auto simp: out_field_def)
  from kv have "k \<in> fst ` set d" by force
  then have "map_of d k \<noteq> None" by (simp add: map_of_eq_None_iff)
  with k' show ?thesis by blast
qed

text \<open>
  C1 (as amended). The normalizer returns an absent document and the empty document as
  they are. For a non-empty document that does not carry both an \<^verbatim>\<open>_id\<close> and an
  \<^verbatim>\<open>id\<close> field, the result has no \<^verbatim>\<open>_id\<close> field; its \<^verbatim>\<open>id\<close> field holds the value of
  \<^verbatim>\<open>_id\<close>, in string form when that value is a native identifier and as it is
  otherwise; every other field that holds a native identifier holds its string form in the
  result; every other field is in the result unchanged; and the result has no further
  fields.
\<close>

theorem serialize_renames_and_converts:
  "serialize None = None \<and> serialize (Some []) = Some [] \<and>
   (wf_doc d \<and> d \<noteq> [] \<and> \<not> (''_id'' \<in> set (map fst d) \<and> ''id'' \<in> set (map fst d)) \<longrightarrow>
     (\<exists>out. serialize (Some d) = Some out \<and> wf_doc out \<and>
        ''_id'' \<notin> set (map fst out) \<and>
        (\<forall>w. map_of d ''_id'' = Some (VOid w) \<longrightarrow> map_of out ''id'' = Some (VStr (str_oid w))) \<and>
        (\<forall>v. map_of d ''_id'' = Some v \<and> \<not> is_ObjectId v \<longrightarrow> map_of out ''id'' = Some v) \<and>
        (\<forall>k w. k \<noteq> ''_id'' \<and> map_of d k = Some (VOid w) \<longrightarrow>
           map_of out k = Some (VStr (str_oid w))) \<and>
        (\<forall>k v. k \<noteq> ''_id'' \<and> map_of d k = Some v \<and> \<not> is_ObjectId v \<longrightarrow>
           map_of out k = Some v) \<and>
        (\<forall>k. map_of out k \<noteq> None \<longrightarrow>
           (k = ''id'' \<and> map_of d ''_id'' \<noteq> None) \<or> (k \<noteq> ''_id'' \<and> map_of d k \<noteq> None))))"
proof (intro conjI impI)
  show "serialize None = None" by (simp add: serialize_def)
  show "serialize (Some []) = Some []" by (simp add: serialize_def serialize_dict_def)
next
  assume h: "wf_doc d \<and> d \<noteq> [] \<and> \<not> (''_id'' \<in> set (map fst d) \<and> ''id'' \<in> set (map fst d))"
  then have wf: "wf_doc d"
    and nb: "\<not> (''_id'' \<in> set (map fst d) \<and> ''id'' \<in> set (map fst d))" by simp_all
  let ?out = "map out_field d"
  have ser: "serialize (Some d) = Some ?out"
    by (simp add: serialize_def serialize_dict_map [OF wf nb])
  have dist: "distinct (map fst ?out)" by (rule distinct_out_fields [OF wf nb])
  have look: "\<And>k v. map_of d k = Some v \<Longrightarrow> map_of ?out (out_key k) = Some (oid_str v)"
    by (rule map_of_out_field [OF dist])
  have c1: "wf_doc ?out" using dist by (simp add: wf_doc_def)
  have c2: "''_id'' \<notin> set (map fst ?out)"
    unfolding fst_out_field by (auto simp: out_key_def)
  have c3: "\<forall>w. map_of d ''_id'' = Some (VOid w) \<longrightarrow> map_of ?out ''id'' = Some (VStr (str_oid w))"
    using look [of "''_id''"] by (auto simp: out_key_def)
  have c4: "\<forall>v. map_of d ''_id'' = Some v \<and> \<not> is_ObjectId v \<longrightarrow> map_of ?out ''id'' = Some v"
    using look [of "''_id''"] by (auto simp: out_key_def oid_str_other)
  have c5: "\<forall>k w. k \<noteq> ''_id'' \<and> map_of d k = Some (VOid w) \<longrightarrow>
           map_of ?out k = Some (VStr (str_oid w))"
  proof (intro allI impI)
    fix k w assume "k \<noteq> ''_id'' \<and> map_of d k = Some (VOid w)"
    with look [of k "VOid w"] show "map_of ?out k = Some (VStr (str_oid w))"
      by (simp add: out_key_def)
  qed
  have c6: "\<forall>k v. k \<noteq> ''_id'' \<and> map_of d k = Some v \<and> \<not> is_ObjectId v \<longrightarrow>
           map_of ?out k = Some v"
  proof (intro allI impI)
    fix k v assume "k \<noteq> ''_id'' \<and> map_of d k = Some v \<and> \<not> is_ObjectId v"
    with look [of k v] show "map_of ?out k = Some v"
      by (simp add: out_key_def oid_str_other)
  qed
  have c7: "\<forall>k. map_of ?out k \<noteq> None \<longrightarrow>
           (k = ''id'' \<and> map_of d ''_id'' \<noteq> None) \<or> (k \<noteq> ''_id'' \<and> map_of d k \<noteq> None)"
  proof (intro allI impI)
    fix k assume "map_of ?out k \<noteq> None"
    from map_of_out_field_None [OF this] obtain k0 where "k = out_key k0" "map_of d k0 \<noteq> None"
      by blast
    then show "(k = ''id'' \<and> map_of d ''_id'' \<noteq> None) \<or> (k \<noteq> ''_id'' \<and> map_of d k \<noteq> None)"
      by (cases "k0 = ''_id''") (auto simp: out_key_def)
  qed
  from ser c1 c2 c3 c4 c5 c6 c7
  show "\<exists>out. serialize (Some d) = Some out \<and> wf_doc out \<and>
        ''_id'' \<notin> set (map fst out) \<and>
        (\<forall>w. map_of d ''_id'' = Some (VOid w) \<longrightarrow> map_of out ''id'' = Some (VStr (str_oid w))) \<and>
        (\<forall>v. map_of d ''_id'' = Some v \<and> \<not> is_ObjectId v \<longrightarrow> map_of out ''id'' = Some v) \<and>
        (\<forall>k w. k \<noteq> ''_id'' \<and> map_of d k = Some (VOid w) \<longrightarrow>
           map_of out k = Some (VStr (str_oid w))) \<and>
        (\<forall>k v. k \<noteq> ''_id'' \<and> map_of d k = Some v \<and> \<not> is_ObjectId v \<longrightarrow>
           map_of out k = Some v) \<and>
        (\<forall>k. map_of out k \<noteq> None \<longrightarrow>
           (k = ''id'' \<and> map_of d ''_id'' \<noteq> None) \<or> (k \<noteq> ''_id'' \<and> map_of d k \<noteq> None))"
    by (intro exI [of _ ?out] conjI)
qed

theorem serialize_renames_and_converts_witness:
  "wf_doc [(''_id'', VOid (oid_bytes 255)), (''owner'', VOid (oid_bytes 1)), (''name'', VStr ''ann'')] \<and>
   (\<exists>out. serialize (Some [(''_id'', VOid (oid_bytes 255)), (''owner'', VOid (oid_bytes 1)), (''name'', VStr ''ann'')])
        = Some out \<and>
      map_of out ''id'' = Some (VStr (str_oid (oid_bytes 255))) \<and>
      map_of out ''owner'' = Some (VStr (str_oid (oid_bytes 1))) \<and>
      map_of out ''name'' = Some (VStr ''ann'') \<and>
      ''_id'' \<notin> set (map fst out))"
proof -
  let ?d = "[(''_id'', VOid (oid_bytes 255)), (''owner'', VOid (oid_bytes 1)), (''name'', VStr ''ann'')]"
  have wf: "wf_doc ?d" by (simp add: wf_doc_def)
  have h: "wf_doc ?d \<and> ?d \<noteq> [] \<and> \<not> (''_id'' \<in> set (map fst ?d) \<and> ''id'' \<in> set (map fst ?d))"
    by (simp add: wf_doc_def)
  note ex = serialize_renames_and_converts [of ?d, THEN conjunct2, THEN conjunct2, THEN mp, OF h]
  from ex obtain out where
    ser: "serialize (Some ?d) = Some out" and no_id: "''_id'' \<notin> set (map fst out)" and
    a: "\<forall>w. map_of ?d ''_id'' = Some (VOid w) \<longrightarrow> map_of out ''id'' = Some (VStr (str_oid w))" and
    b: "\<forall>k w. k \<noteq> ''_id'' \<and> map_of ?d k = Some (VOid w) \<longrightarrow>
           map_of out k = Some (VStr (str_oid w))" and
    c: "\<forall>k v. k \<noteq> ''_id'' \<and> map_of ?d k = Some v \<and> \<not> is_ObjectId v \<longrightarrow>
           map_of out k = Some v"
    by (elim exE conjE) (rule that; assumption)
  from a have "map_of out ''id'' = Some (VStr (str_oid (oid_bytes 255)))" by simp
  moreover from b [rule_format, of "''owner''" "oid_bytes 1"]
  have "map_of out ''owner'' = Some (VStr (str_oid (oid_bytes 1)))" by simp
  moreover from c [rule_format, of "''name''" "VStr ''ann''"]
  have "map_of out ''name'' = Some (VStr ''ann'')" by simp
  ultimately show ?thesis using wf ser no_id by (intro conjI exI [of _ out])
qed

text \<open>
  C1 as stated fails on a document that has both an \<^verbatim>\<open>_id\<close> and an \<^verbatim>\<open>id\<close> field: both
  are written to the output key \<^verbatim>\<open>id\<close> and the later one wins, so here the identifier
  \<^verbatim>\<open>_id\<close> is lost instead of being renamed and converted.
\<close>

theorem serialize_id_collision_counterexample:
  "wf_doc [(''_id'', VOid (oid_bytes 255)), (''id'', VStr ''x'')] \<and>
   serialize (Some [(''_id'', VOid (oid_bytes 255)), (''id'', VStr ''x'')]) = Some [(''id'', VStr ''x'')] \<and>
   str_oid (oid_bytes 255) = ''0000000000000000000000ff''"
  by (simp add: wf_doc_def serialize_def serialize_dict_def serialize_step_def) code_simp

section \<open>The store and the gateway\<close>

lemma create_document_eq:
  "create_document coll data now oid db =
     (if list_ex (has_id (VOid (oid_bytes oid))) (db coll) then (Inl DuplicateKeyError, db)
      else (Inr (str_oid (oid_bytes oid)), db(coll := db coll @ [stored_doc data now oid])))"
  by (simp add: create_document_def insert_one_def stored_doc_def)

lemma find_append_new: "\<not> list_ex P xs \<Longrightarrow> P x \<Longrightarrow> List.find P (xs @ [x]) = Some x"
  by (induction xs) simp_all

lemma find_update_first:
  "List.find P ds = Some d \<Longrightarrow> P (f d) \<Longrightarrow> List.find P (update_first P f ds) = Some (f d)"
  by (induction ds) (auto split: if_splits)

lemma find_SomeD: "List.find P ds = Some d \<Longrightarrow> P d \<and> d \<in> set ds"
  by (induction ds) (auto split: if_splits)

lemma has_id_update: "field \<noteq> ''_id'' \<Longrightarrow> has_id i (AList.update field x d) = has_id i d"
  by (simp add: has_id_def update_conv')

lemma has_id_stored_doc: "has_id (VOid (oid_bytes oid)) (stored_doc data now oid)"
  by (simp add: has_id_def stored_doc_def)

lemma created_at_stored_doc: "map_of (stored_doc data now oid) ''created_at'' = Some (VTime now)"
  by (simp add: stored_doc_def update_conv')

lemma updated_at_stored_doc: "map_of (stored_doc data now oid) ''updated_at'' = Some (VTime now)"
  by (simp add: stored_doc_def update_conv')

lemma find_one_has_id: "find_one coll i db = Some d \<Longrightarrow> map_of d ''_id'' = Some i"
  by (auto simp: find_one_def has_id_def dest: find_SomeD)

lemma find_one_inserted:
  "\<not> list_ex (has_id (VOid (oid_bytes oid))) (db coll) \<Longrightarrow>
   find_one coll (VOid (oid_bytes oid)) (db(coll := db coll @ [stored_doc data now oid]))
     = Some (stored_doc data now oid)"
  by (simp add: find_one_def find_append_new has_id_stored_doc)

lemma find_one_update_one_other:
  "coll' \<noteq> coll \<Longrightarrow> find_one coll' i (update_one coll j field x db) = find_one coll' i db"
  by (simp add: find_one_def update_one_def)

lemma find_one_insert_other:
  "coll' \<noteq> coll \<Longrightarrow> find_one coll' i (db(coll := ds)) = find_one coll' i db"
  by (simp add: find_one_def)

lemma find_one_update_one:
  "find_one coll i db = Some d \<Longrightarrow> field \<noteq> ''_id'' \<Longrightarrow>
   find_one coll i (update_one coll i field x db) = Some (AList.update field x d)"
proof -
  assume f: "find_one coll i db = Some d" and ne: "field \<noteq> ''_id''"
  from f have "has_id i d" by (auto simp: find_one_def dest: find_SomeD)
  then have "has_id i (AList.update field x d)" by (simp add: has_id_update ne)
  with f show ?thesis
    by (simp add: find_one_def update_one_def find_update_first)
qed

lemma message_created_at_new:
  "\<not> list_ex (has_id (VOid (oid_bytes oid))) (db ''message'') \<Longrightarrow>
   message_created_at (str_oid (oid_bytes oid)) (db(''message'' := db ''message'' @ [stored_doc data now oid]))
     = Inr (VTime now)"
  by (simp add: message_created_at_def ObjectId_generated find_one_inserted created_at_stored_doc)

lemma send_message_Inr:
  assumes "send_message p now oid db = (Inr out, db')"
  shows "\<exists>c chat. ObjectId (chat_id p) = Inr c \<and> find_one ''chat'' (VOid c) db = Some chat \<and>
           py_contains (VStr (sender_id p)) (dict_get_default chat ''participants'' (VList []))
             = Inr True \<and>
           \<not> list_ex (has_id (VOid (oid_bytes oid))) (db ''message'') \<and>
           db' = after_send p now oid c db \<and>
           out = serialize (Some (stored_doc (CreateMessage_dump p) now oid))"
proof -
  from assms obtain c where c: "ObjectId (chat_id p) = Inr c"
    by (auto simp: send_message_def split: sum.splits)
  from assms c obtain chat where chat: "find_one ''chat'' (VOid c) db = Some chat"
    by (auto simp: send_message_def split: option.splits)
  from assms c chat have mem:
    "py_contains (VStr (sender_id p)) (dict_get_default chat ''participants'' (VList [])) = Inr True"
    by (auto simp: send_message_def split: sum.splits if_splits)
  from assms c chat mem have fresh: "\<not> list_ex (has_id (VOid (oid_bytes oid))) (db ''message'')"
    by (auto simp: send_message_def create_document_eq split: if_splits)
  let ?db1 = "db(''message'' := db ''message'' @ [stored_doc (CreateMessage_dump p) now oid])"
  have cid: "map_of chat ''_id'' = Some (VOid c)" by (rule find_one_has_id [OF chat])
  have m: "find_one ''message'' (VOid (oid_bytes oid)) (after_send p now oid c db)
             = Some (stored_doc (CreateMessage_dump p) now oid)"
    unfolding after_send_def using fresh
    by (simp add: find_one_update_one_other find_one_inserted)
  from assms c chat mem fresh cid m show ?thesis
    by (auto simp: send_message_def create_document_eq message_created_at_new ObjectId_generated
        after_send_def Let_def split: if_splits)
qed

lemma send_message_success:
  assumes c: "ObjectId (chat_id p) = Inr c"
    and chat: "find_one ''chat'' (VOid c) db = Some chat"
    and mem: "py_contains (VStr (sender_id p)) (dict_get_default chat ''participants'' (VList []))
               = Inr True"
    and fresh: "\<not> list_ex (has_id (VOid (oid_bytes oid))) (db ''message'')"
  shows "send_message p now oid db =
           (Inr (serialize (Some (stored_doc (CreateMessage_dump p) now oid))),
            after_send p now oid c db)"
proof -
  have cid: "map_of chat ''_id'' = Some (VOid c)" by (rule find_one_has_id [OF chat])
  then have ne: "chat \<noteq> []" by auto
  have m: "find_one ''message'' (VOid (oid_bytes oid)) (after_send p now oid c db)
             = Some (stored_doc (CreateMessage_dump p) now oid)"
    unfolding after_send_def using fresh
    by (simp add: find_one_update_one_other find_one_inserted)
  from c chat mem fresh cid ne m show ?thesis
    by (simp add: send_message_def create_document_eq message_created_at_new ObjectId_generated
        after_send_def Let_def)
qed

section \<open>Example data, evaluated\<close>

lemma ObjectId_1: "ObjectId ''000000000000000000000001'' = Inr (oid_bytes 1)"
  by code_simp

lemma ObjectId_2: "ObjectId ''000000000000000000000002'' = Inr (oid_bytes 2)"
  by code_simp

lemma find_chat_1: "find_one ''chat'' (VOid (oid_bytes 1)) db_one_chat = Some chat_AB"
  by (simp add: find_one_def db_one_chat_def db_empty_def has_id_def chat_AB_def oid_bytes_eq)

lemma find_chat_2: "find_one ''chat'' (VOid (oid_bytes 2)) db_one_chat = None"
  by (simp add: find_one_def db_one_chat_def db_empty_def has_id_def chat_AB_def oid_bytes_eq)

lemma no_message_yet: "\<not> list_ex (has_id (VOid (oid_bytes 7))) (db_one_chat ''message'')"
  by (simp add: db_one_chat_def db_empty_def)

lemma member_A:
  "py_contains (VStr ''A'') (dict_get_default chat_AB ''participants'' (VList [])) = Inr True"
  by (simp add: dict_get_default_def chat_AB_def)

section \<open>Sending a message: the error paths\<close>

text \<open>
  C2 (as amended). When \<^verbatim>\<open>chat_id\<close> is a well-formed identifier (\<^verbatim>\<open>ObjectId\<close> accepts
  it) and no chat has it,
  \<open>send_message\<close> raises the 404 \<open>HTTPException\<close> and the store is unchanged. When the
  chat exists and \<^verbatim>\<open>sender_id\<close> is not an element of its \<^verbatim>\<open>participants\<close> list, it
  raises the 403 \<open>HTTPException\<close> and the store is unchanged.
\<close>

theorem send_message_rejects:
  "(ObjectId (chat_id p) = Inr c \<and> find_one ''chat'' (VOid c) db = None \<longrightarrow>
      send_message p now oid db = (Inl (HTTPException 404 ''Chat not found''), db) \<and>
      status_code (HTTPException 404 ''Chat not found'') = 404) \<and>
   (ObjectId (chat_id p) = Inr c \<and> find_one ''chat'' (VOid c) db = Some chat \<and>
    map_of chat ''participants'' = Some (VList ps) \<and> VStr (sender_id p) \<notin> set ps \<longrightarrow>
      send_message p now oid db = (Inl (HTTPException 403 ''Sender not part of this chat''), db) \<and>
      status_code (HTTPException 403 ''Sender not part of this chat'') = 403)"
proof (intro conjI impI)
  assume "ObjectId (chat_id p) = Inr c \<and> find_one ''chat'' (VOid c) db = None"
  then show "send_message p now oid db = (Inl (HTTPException 404 ''Chat not found''), db)"
    by (simp add: send_message_def)
next
  assume h: "ObjectId (chat_id p) = Inr c \<and> find_one ''chat'' (VOid c) db = Some chat \<and>
    map_of chat ''participants'' = Some (VList ps) \<and> VStr (sender_id p) \<notin> set ps"
  then have "chat \<noteq> []" by auto
  with h show "send_message p now oid db
      = (Inl (HTTPException 403 ''Sender not part of this chat''), db)"
    by (simp add: send_message_def dict_get_default_def)
qed simp_all

theorem send_message_rejects_witness:
  "send_message (msg_hi\<lparr>chat_id := ''000000000000000000000002''\<rparr>) 20 7 db_one_chat
     = (Inl (HTTPException 404 ''Chat not found''), db_one_chat) \<and>
   send_message (msg_hi\<lparr>sender_id := ''unknown''\<rparr>) 20 7 db_one_chat
     = (Inl (HTTPException 403 ''Sender not part of this chat''), db_one_chat)"
proof -
  have h1: "ObjectId (chat_id (msg_hi\<lparr>chat_id := ''000000000000000000000002''\<rparr>)) = Inr (oid_bytes 2) \<and>
      find_one ''chat'' (VOid (oid_bytes 2)) db_one_chat = None"
    by (simp add: ObjectId_2 find_chat_2)
  have h2: "ObjectId (chat_id (msg_hi\<lparr>sender_id := ''unknown''\<rparr>)) = Inr (oid_bytes 1) \<and>
      find_one ''chat'' (VOid (oid_bytes 1)) db_one_chat = Some chat_AB \<and>
      map_of chat_AB ''participants'' = Some (VList [VStr ''A'', VStr ''B'']) \<and>
      VStr (sender_id (msg_hi\<lparr>sender_id := ''unknown''\<rparr>)) \<notin> set [VStr ''A'', VStr ''B'']"
    by (simp add: ObjectId_1 find_chat_1 msg_hi_def chat_AB_def)
  from send_message_rejects [THEN conjunct1, THEN mp, OF h1]
    send_message_rejects [THEN conjunct2, THEN mp, OF h2]
  show ?thesis by simp
qed

text \<open>
  C2 as stated fails for a \<^verbatim>\<open>chat_id\<close> that no chat has because it is not an identifier
  at all: on the empty store the request does not end in the 404 exception but in
  \<open>InvalidId\<close>, which the framework reports with status 500.
\<close>

theorem send_message_unknown_chat_counterexample:
  "db_empty ''chat'' = [] \<and>
   send_message \<lparr>chat_id = ''nope'', sender_id = ''A'', content = ''hi'', msg_type = ''text''\<rparr>
       20 7 db_empty = (Inl InvalidId, db_empty) \<and>
   status_code InvalidId = 500"
  by (simp add: send_message_def ObjectId_def db_empty_def)

text \<open>
  A string of 24 characters with whitespace before some of its bytes is not malformed for
  \<^verbatim>\<open>ObjectId\<close>: it is read as a shorter identifier, which no stored document has, and
  the request goes on to the lookup.
\<close>

lemma ObjectId_whitespace:
  "ObjectId ''00 00 00 00 00 00 00 00 '' = Inr [0, 0, 0, 0, 0, 0, 0, 0]"
  by code_simp

lemma send_message_whitespace_chat_id:
  "fst (send_message (msg_hi\<lparr>chat_id := ''00 00 00 00 00 00 00 00 ''\<rparr>) 20 7 db_one_chat)
     = Inl (HTTPException 404 ''Chat not found'')"
  unfolding msg_hi_def db_one_chat_def db_empty_def chat_AB_def by code_simp

text \<open>
  C5 (as amended). \<open>send_message\<close> parses \<^verbatim>\<open>chat_id\<close> into the native identifier before
  it queries anything. When \<^verbatim>\<open>ObjectId\<close> rejects the string, because it is not 24
  characters long or is not made of two-digit hexadecimal bytes with optional whitespace
  before a byte, the parse raises \<open>InvalidId\<close>, nothing is written, and the exception is
  not handled: the status is 500, which is not a client error.
\<close>

theorem send_message_malformed_chat_id:
  assumes "length (chat_id p) \<noteq> 24 \<or> fromhex (chat_id p) = None"
  shows "send_message p now oid db = (Inl InvalidId, db) \<and> status_code InvalidId = 500 \<and>
         \<not> client_error InvalidId"
proof -
  from assms have "ObjectId (chat_id p) = Inl InvalidId"
    by (auto simp: ObjectId_def)
  then show ?thesis
    by (simp add: send_message_def client_error_def)
qed

theorem send_message_malformed_chat_id_witness:
  "length (chat_id (msg_hi\<lparr>chat_id := ''12345''\<rparr>)) \<noteq> 24 \<and>
   send_message (msg_hi\<lparr>chat_id := ''12345''\<rparr>) 20 7 db_one_chat = (Inl InvalidId, db_one_chat) \<and>
   fromhex ''0000000000000000000000zz'' = None \<and>
   send_message (msg_hi\<lparr>chat_id := ''0000000000000000000000zz''\<rparr>) 20 7 db_one_chat
     = (Inl InvalidId, db_one_chat)"
proof -
  have h: "length (chat_id (msg_hi\<lparr>chat_id := ''12345''\<rparr>)) \<noteq> 24 \<or>
    fromhex (chat_id (msg_hi\<lparr>chat_id := ''12345''\<rparr>)) = None"
    by simp
  have z: "fromhex ''0000000000000000000000zz'' = None" by code_simp
  then have h': "length (chat_id (msg_hi\<lparr>chat_id := ''0000000000000000000000zz''\<rparr>)) \<noteq> 24 \<or>
    fromhex (chat_id (msg_hi\<lparr>chat_id := ''0000000000000000000000zz''\<rparr>)) = None"
    by simp
  have l: "length (chat_id (msg_hi\<lparr>chat_id := ''12345''\<rparr>)) \<noteq> 24" by simp
  from l z send_message_malformed_chat_id [OF h] send_message_malformed_chat_id [OF h']
  show ?thesis by simp
qed

text \<open>
  C5 as stated fails: for the malformed \<^verbatim>\<open>chat_id\<close> \<^verbatim>\<open>not-a-chat-id\<close> the operation ends
  in an exception that is not of the client-error class.
\<close>

theorem send_message_malformed_chat_id_counterexample:
  "fst (send_message (msg_hi\<lparr>chat_id := ''not-a-chat-id''\<rparr>) 20 7 db_one_chat) = Inl InvalidId \<and>
   \<not> client_error InvalidId"
  by (simp add: send_message_def ObjectId_def client_error_def)

text \<open>
  C10. When the chat that \<^verbatim>\<open>chat_id\<close> names exists and has no \<^verbatim>\<open>participants\<close> field,
  the field is read as the empty list: whatever the \<^verbatim>\<open>sender_id\<close>, \<open>send_message\<close>
  raises the 403 \<open>HTTPException\<close> (no other exception) and the store is unchanged.
\<close>

theorem send_message_no_participants_field:
  assumes "ObjectId (chat_id p) = Inr c" and "find_one ''chat'' (VOid c) db = Some chat"
    and "map_of chat ''participants'' = None"
  shows "send_message p now oid db = (Inl (HTTPException 403 ''Sender not part of this chat''), db)"
proof -
  have "map_of chat ''_id'' = Some (VOid c)" by (rule find_one_has_id [OF assms(2)])
  then have "chat \<noteq> []" by auto
  with assms show ?thesis
    by (simp add: send_message_def dict_get_default_def)
qed

theorem send_message_no_participants_field_witness:
  "find_one ''chat'' (VOid (oid_bytes 1)) (db_empty(''chat'' := [chat_bare])) = Some chat_bare \<and>
   map_of chat_bare ''participants'' = None \<and>
   send_message msg_hi 20 7 (db_empty(''chat'' := [chat_bare]))
     = (Inl (HTTPException 403 ''Sender not part of this chat''), db_empty(''chat'' := [chat_bare]))"
proof -
  have a: "ObjectId (chat_id msg_hi) = Inr (oid_bytes 1)" by (simp add: msg_hi_def ObjectId_1)
  have b: "find_one ''chat'' (VOid (oid_bytes 1)) (db_empty(''chat'' := [chat_bare])) = Some chat_bare"
    by (simp add: find_one_def has_id_def chat_bare_def)
  have c: "map_of chat_bare ''participants'' = None" by (simp add: chat_bare_def)
  from b c send_message_no_participants_field [OF a b c] show ?thesis by simp
qed

section \<open>Listing users\<close>

text \<open>
  C9. The empty string as search filter is the same as no filter: \<open>list_users\<close> gives
  the same result for both, and that result is every document of the \<^verbatim>\<open>user\<close>
  collection, normalized, whether or not it has a \<^verbatim>\<open>name\<close>.
\<close>

theorem list_users_empty_query:
  "list_users rx (Some '''') db = list_users rx None db \<and>
   list_users rx None db = map serialize_dict (db ''user'')"
  by (simp add: list_users_def get_documents_def matches_def)

section \<open>What the gateway stores for a chat and for a message\<close>

lemma is_ObjectId_opt_str: "\<not> is_ObjectId (opt_str x)"
  by (cases x) simp_all

lemma stored_chat:
  "stored_doc (CreateChat_dump p) now oid =
     [(''_id'', VOid (oid_bytes oid)), (''participants'', VList (map VStr (participants p))),
      (''title'', opt_str (title p)), (''is_group'', VBool (is_group p)),
      (''created_at'', VTime now), (''updated_at'', VTime now)]"
  by (simp add: stored_doc_def CreateChat_dump_def)

lemma stored_message:
  "stored_doc (CreateMessage_dump p) now oid =
     [(''_id'', VOid (oid_bytes oid)), (''chat_id'', VStr (chat_id p)), (''sender_id'', VStr (sender_id p)),
      (''content'', VStr (content p)), (''type'', VStr (msg_type p)),
      (''created_at'', VTime now), (''updated_at'', VTime now)]"
  by (simp add: stored_doc_def CreateMessage_dump_def)

lemma serialize_stored_chat:
  "serialize_dict (stored_doc (CreateChat_dump p) now oid) =
     [(''id'', VStr (str_oid (oid_bytes oid))), (''participants'', VList (map VStr (participants p))),
      (''title'', opt_str (title p)), (''is_group'', VBool (is_group p)),
      (''created_at'', VTime now), (''updated_at'', VTime now)]"
  by (simp add: stored_chat serialize_dict_def serialize_step_def is_ObjectId_opt_str)

lemma serialize_stored_message:
  "serialize_dict (stored_doc (CreateMessage_dump p) now oid) =
     [(''id'', VStr (str_oid (oid_bytes oid))), (''chat_id'', VStr (chat_id p)),
      (''sender_id'', VStr (sender_id p)), (''content'', VStr (content p)),
      (''type'', VStr (msg_type p)), (''created_at'', VTime now), (''updated_at'', VTime now)]"
  by (simp add: stored_message serialize_dict_def serialize_step_def)

lemma create_chat_success:
  assumes "\<not> (length (participants p) < 2 \<and> \<not> is_group p)"
    and "\<not> list_ex (has_id (VOid (oid_bytes oid))) (db ''chat'')"
  shows "create_chat p now oid db =
     (Inr (Some (serialize_dict (stored_doc (CreateChat_dump p) now oid))),
      db(''chat'' := db ''chat'' @ [stored_doc (CreateChat_dump p) now oid]))"
  using assms
  by (simp add: create_chat_def create_document_eq ObjectId_generated find_one_inserted
      serialize_def)

section \<open>Creating a chat\<close>

text \<open>
  C3. A payload with \<^verbatim>\<open>is_group\<close> false and fewer than 2 participants is refused with
  the 400 \<open>HTTPException\<close>, a client error, and the store is unchanged. A payload with
  \<^verbatim>\<open>is_group\<close> true and a non-empty \<^verbatim>\<open>participants\<close> list, a single entry included,
  is accepted whenever the store can take the new document (the identifier generated for
  it is not in the collection yet): the chat is stored and returned normalized.
\<close>

theorem create_chat_direct_needs_two:
  "(\<not> is_group p \<and> length (participants p) < 2 \<longrightarrow>
      create_chat p now oid db
        = (Inl (HTTPException 400 ''A direct chat requires 2 participants''), db) \<and>
      client_error (HTTPException 400 ''A direct chat requires 2 participants'')) \<and>
   (is_group p \<and> participants p \<noteq> [] \<and> \<not> list_ex (has_id (VOid (oid_bytes oid))) (db ''chat'') \<longrightarrow>
      (\<exists>doc. create_chat p now oid db
           = (Inr (Some doc), db(''chat'' := db ''chat'' @ [stored_doc (CreateChat_dump p) now oid])) \<and>
         map_of doc ''id'' = Some (VStr (str_oid (oid_bytes oid))) \<and>
         map_of doc ''participants'' = Some (VList (map VStr (participants p))) \<and>
         map_of doc ''is_group'' = Some (VBool True)))"
proof (intro conjI impI)
  assume "\<not> is_group p \<and> length (participants p) < 2"
  then show "create_chat p now oid db
        = (Inl (HTTPException 400 ''A direct chat requires 2 participants''), db)"
    by (simp add: create_chat_def)
next
  show "client_error (HTTPException 400 ''A direct chat requires 2 participants'')"
    by (simp add: client_error_def)
next
  assume h: "is_group p \<and> participants p \<noteq> [] \<and> \<not> list_ex (has_id (VOid (oid_bytes oid))) (db ''chat'')"
  then have ok: "\<not> (length (participants p) < 2 \<and> \<not> is_group p)"
    and fresh: "\<not> list_ex (has_id (VOid (oid_bytes oid))) (db ''chat'')" by simp_all
  let ?doc = "serialize_dict (stored_doc (CreateChat_dump p) now oid)"
  have "map_of ?doc ''id'' = Some (VStr (str_oid (oid_bytes oid)))"
    "map_of ?doc ''participants'' = Some (VList (map VStr (participants p)))"
    "map_of ?doc ''is_group'' = Some (VBool True)"
    using h by (simp_all add: serialize_stored_chat)
  with create_chat_success [where p = p and oid = oid and db = db and now = now, OF ok fresh]
  show "\<exists>doc. create_chat p now oid db
           = (Inr (Some doc), db(''chat'' := db ''chat'' @ [stored_doc (CreateChat_dump p) now oid])) \<and>
         map_of doc ''id'' = Some (VStr (str_oid (oid_bytes oid))) \<and>
         map_of doc ''participants'' = Some (VList (map VStr (participants p))) \<and>
         map_of doc ''is_group'' = Some (VBool True)"
    by blast
qed

theorem create_chat_direct_needs_two_witness:
  "create_chat \<lparr>participants = [''A''], title = None, is_group = False\<rparr> 10 2 db_one_chat
     = (Inl (HTTPException 400 ''A direct chat requires 2 participants''), db_one_chat) \<and>
   (\<exists>doc. fst (create_chat \<lparr>participants = [''A''], title = None, is_group = True\<rparr> 10 2
               db_one_chat) = Inr (Some doc) \<and>
      map_of doc ''participants'' = Some (VList [VStr ''A'']))"
proof -
  let ?d = "\<lparr>participants = [''A''], title = None, is_group = False\<rparr>"
  let ?g = "\<lparr>participants = [''A''], title = None, is_group = True\<rparr>"
  have h1: "\<not> is_group ?d \<and> length (participants ?d) < 2" by simp
  have h2: "is_group ?g \<and> participants ?g \<noteq> [] \<and>
      \<not> list_ex (has_id (VOid (oid_bytes 2))) (db_one_chat ''chat'')"
    by (simp add: db_one_chat_def has_id_def chat_AB_def oid_bytes_eq)
  from create_chat_direct_needs_two [where p = ?d and oid = 2 and db = db_one_chat and now = 10,
      THEN conjunct1, THEN mp, OF h1]
  have a: "create_chat ?d 10 2 db_one_chat
     = (Inl (HTTPException 400 ''A direct chat requires 2 participants''), db_one_chat)"
    by simp
  from create_chat_direct_needs_two [where p = ?g and oid = 2 and db = db_one_chat and now = 10,
      THEN conjunct2, THEN mp, OF h2]
  obtain doc where "fst (create_chat ?g 10 2 db_one_chat) = Inr (Some doc)"
    and "map_of doc ''participants'' = Some (VList [VStr ''A''])"
    by auto
  with a show ?thesis by blast
qed

section \<open>Sending a message: the chat is touched\<close>

text \<open>
  C8. After a successful \<open>send_message\<close> the message collection has one more document,
  the message, which is what is returned, normalized; the chat of the request is the chat
  it was before with \<^verbatim>\<open>updated_at\<close> set to exactly the \<^verbatim>\<open>created_at\<close> of that message
  (the time of the call) and every other field as it was. So the chat's \<^verbatim>\<open>updated_at\<close>
  is not earlier than the message's \<^verbatim>\<open>created_at\<close>.
\<close>

theorem send_message_sets_updated_at:
  assumes "send_message p now oid db = (Inr out, db')"
  shows "\<exists>c chat chat' msg t.
     ObjectId (chat_id p) = Inr c \<and>
     find_one ''chat'' (VOid c) db = Some chat \<and>
     db' ''message'' = db ''message'' @ [msg] \<and> out = serialize (Some msg) \<and>
     map_of msg ''created_at'' = Some t \<and>
     find_one ''chat'' (VOid c) db' = Some chat' \<and>
     map_of chat' ''updated_at'' = Some t \<and>
     (\<forall>k. k \<noteq> ''updated_at'' \<longrightarrow> map_of chat' k = map_of chat k) \<and>
     t = VTime now \<and>
     py_lt (dict_get chat' ''updated_at'') (dict_get msg ''created_at'') = Inr False"
proof -
  let ?msg = "stored_doc (CreateMessage_dump p) now oid"
  let ?db1 = "db(''message'' := db ''message'' @ [?msg])"
  from send_message_Inr [OF assms] obtain c chat where
    c: "ObjectId (chat_id p) = Inr c" and chat: "find_one ''chat'' (VOid c) db = Some chat" and
    db': "db' = after_send p now oid c db" and out: "out = serialize (Some ?msg)"
    by blast
  have chat1: "find_one ''chat'' (VOid c) ?db1 = Some chat"
    using chat by (simp add: find_one_insert_other)
  have chat': "find_one ''chat'' (VOid c) db' = Some (AList.update ''updated_at'' (VTime now) chat)"
    unfolding db' after_send_def by (rule find_one_update_one [OF chat1]) simp
  have msgs: "db' ''message'' = db ''message'' @ [?msg]"
    by (simp add: db' after_send_def update_one_def)
  have upd: "map_of (AList.update ''updated_at'' (VTime now) chat) ''updated_at'' = Some (VTime now)"
    by (simp add: update_conv')
  have rest: "\<forall>k. k \<noteq> ''updated_at'' \<longrightarrow>
      map_of (AList.update ''updated_at'' (VTime now) chat) k = map_of chat k"
    by (simp add: update_conv')
  have lt: "py_lt (dict_get (AList.update ''updated_at'' (VTime now) chat) ''updated_at'')
      (dict_get ?msg ''created_at'') = Inr False"
    by (simp add: dict_get_def upd created_at_stored_doc)
  from c chat msgs out created_at_stored_doc [of "CreateMessage_dump p" now oid] chat' upd rest lt
  show ?thesis by blast
qed

theorem send_message_sets_updated_at_witness:
  "\<exists>out db' chat'. send_message msg_hi 20 7 db_one_chat = (Inr out, db') \<and>
     find_one ''chat'' (VOid (oid_bytes 1)) db' = Some chat' \<and>
     map_of chat' ''updated_at'' = Some (VTime 20) \<and>
     map_of chat' ''created_at'' = Some (VTime 10)"
proof -
  have c: "ObjectId (chat_id msg_hi) = Inr (oid_bytes 1)" by (simp add: msg_hi_def ObjectId_1)
  have m: "py_contains (VStr (sender_id msg_hi))
      (dict_get_default chat_AB ''participants'' (VList [])) = Inr True"
    by (simp add: msg_hi_def member_A)
  note run = send_message_success [OF c find_chat_1 m no_message_yet, of 20]
  from send_message_sets_updated_at [OF run] obtain c' chat chat' t where
    "ObjectId (chat_id msg_hi) = Inr c'" and "find_one ''chat'' (VOid c') db_one_chat = Some chat"
    and "find_one ''chat'' (VOid c') (after_send msg_hi 20 7 (oid_bytes 1) db_one_chat) = Some chat'"
    and "map_of chat' ''updated_at'' = Some t" and "t = VTime 20"
    and "\<forall>k. k \<noteq> ''updated_at'' \<longrightarrow> map_of chat' k = map_of chat k"
    by blast
  note r = this
  from r(1) c have c': "c' = oid_bytes 1" by simp
  from r(2) find_chat_1 c' have chat: "chat = chat_AB" by simp
  from r(6) chat have "map_of chat' ''created_at'' = Some (VTime 10)"
    by (simp add: chat_AB_def)
  moreover from r(3) c'
  have "find_one ''chat'' (VOid (oid_bytes 1)) (after_send msg_hi 20 7 (oid_bytes 1) db_one_chat) = Some chat'" by simp
  moreover from r(4,5) have "map_of chat' ''updated_at'' = Some (VTime 20)" by simp
  ultimately show ?thesis using run by blast
qed

section \<open>The shape of the request bodies\<close>

lemma CreateChat_validate_Some:
  "body_participants b = Some ps \<Longrightarrow>
   CreateChat_validate b =
     Inr \<lparr>participants = ps, title = body_title b,
          is_group = (case body_is_group b of None \<Rightarrow> False | Some g \<Rightarrow> g)\<rparr>"
  by (simp add: CreateChat_validate_def)

text \<open>
  C6 (as amended). \<^verbatim>\<open>participants\<close> is required: a create-chat body without it fails
  shape validation (422) and nothing is stored. It need not be non-empty: with an empty
  \<^verbatim>\<open>participants\<close> list creation fails, with the 400 \<open>HTTPException\<close>, only when
  \<^verbatim>\<open>is_group\<close> is false or absent; when \<^verbatim>\<open>is_group\<close> is true the chat is stored and
  returned like any other.
\<close>

theorem post_chats_participants:
  "(body_participants b = None \<longrightarrow>
      post_chats b now oid db = (Inl RequestValidationError, db) \<and>
      status_code RequestValidationError = 422) \<and>
   (body_participants b = Some [] \<and> body_is_group b \<noteq> Some True \<longrightarrow>
      post_chats b now oid db
        = (Inl (HTTPException 400 ''A direct chat requires 2 participants''), db)) \<and>
   (body_participants b = Some [] \<and> body_is_group b = Some True \<and>
    \<not> list_ex (has_id (VOid (oid_bytes oid))) (db ''chat'') \<longrightarrow>
      (\<exists>doc stored. post_chats b now oid db = (Inr (Some doc), db(''chat'' := db ''chat'' @ [stored])) \<and>
         map_of stored ''participants'' = Some (VList []) \<and>
         map_of doc ''participants'' = Some (VList []) \<and>
         map_of doc ''id'' = Some (VStr (str_oid (oid_bytes oid)))))"
proof (intro conjI impI)
  assume "body_participants b = None"
  then show "post_chats b now oid db = (Inl RequestValidationError, db)"
    by (simp add: post_chats_def CreateChat_validate_def)
next
  show "status_code RequestValidationError = 422" by simp
next
  assume h: "body_participants b = Some [] \<and> body_is_group b \<noteq> Some True"
  then have "(case body_is_group b of None \<Rightarrow> False | Some g \<Rightarrow> g) = False"
    by (cases "body_is_group b") auto
  with h show "post_chats b now oid db
        = (Inl (HTTPException 400 ''A direct chat requires 2 participants''), db)"
    by (simp add: post_chats_def CreateChat_validate_Some create_chat_def)
next
  assume h: "body_participants b = Some [] \<and> body_is_group b = Some True \<and>
    \<not> list_ex (has_id (VOid (oid_bytes oid))) (db ''chat'')"
  let ?p = "\<lparr>participants = [], title = body_title b, is_group = True\<rparr>"
  have v: "CreateChat_validate b = Inr ?p"
    using h by (simp add: CreateChat_validate_Some)
  have ok: "\<not> (length (participants ?p) < 2 \<and> \<not> is_group ?p)" by simp
  have fresh: "\<not> list_ex (has_id (VOid (oid_bytes oid))) (db ''chat'')" using h by simp
  let ?stored = "stored_doc (CreateChat_dump ?p) now oid"
  let ?doc = "serialize_dict ?stored"
  have run: "post_chats b now oid db = (Inr (Some ?doc), db(''chat'' := db ''chat'' @ [?stored]))"
    using create_chat_success [where p = ?p and oid = oid and db = db and now = now, OF ok fresh]
    by (simp add: post_chats_def v)
  have "map_of ?stored ''participants'' = Some (VList [])"
    by (simp add: stored_chat)
  moreover have "map_of ?doc ''participants'' = Some (VList [])"
    "map_of ?doc ''id'' = Some (VStr (str_oid (oid_bytes oid)))"
    by (simp_all add: serialize_stored_chat)
  ultimately show "\<exists>doc stored. post_chats b now oid db
        = (Inr (Some doc), db(''chat'' := db ''chat'' @ [stored])) \<and>
         map_of stored ''participants'' = Some (VList []) \<and>
         map_of doc ''participants'' = Some (VList []) \<and>
         map_of doc ''id'' = Some (VStr (str_oid (oid_bytes oid)))"
    using run by blast
qed

theorem post_chats_participants_witness:
  "post_chats \<lparr>body_participants = None, body_title = None, body_is_group = Some True\<rparr>
       10 2 db_one_chat = (Inl RequestValidationError, db_one_chat) \<and>
   post_chats \<lparr>body_participants = Some [], body_title = None, body_is_group = None\<rparr>
       10 2 db_one_chat
     = (Inl (HTTPException 400 ''A direct chat requires 2 participants''), db_one_chat) \<and>
   (\<exists>doc. fst (post_chats \<lparr>body_participants = Some [], body_title = None,
                           body_is_group = Some True\<rparr> 10 2 db_one_chat) = Inr (Some doc) \<and>
      map_of doc ''participants'' = Some (VList []))"
proof -
  let ?a = "\<lparr>body_participants = None, body_title = None, body_is_group = Some True\<rparr>"
  let ?b = "\<lparr>body_participants = Some [], body_title = None, body_is_group = None\<rparr>"
  let ?c = "\<lparr>body_participants = Some [], body_title = None, body_is_group = Some True\<rparr>"
  have ha: "body_participants ?a = None" by simp
  have hb: "body_participants ?b = Some [] \<and> body_is_group ?b \<noteq> Some True" by simp
  have hc: "body_participants ?c = Some [] \<and> body_is_group ?c = Some True \<and>
      \<not> list_ex (has_id (VOid (oid_bytes 2))) (db_one_chat ''chat'')"
    by (simp add: db_one_chat_def has_id_def chat_AB_def oid_bytes_eq)
  note inst = post_chats_participants [where now = 10 and oid = 2 and db = db_one_chat]
  from inst [where b = "?a", THEN conjunct1, THEN mp, OF ha]
  have a: "post_chats ?a 10 2 db_one_chat = (Inl RequestValidationError, db_one_chat)" by simp
  from inst [where b = "?b", THEN conjunct2, THEN conjunct1, THEN mp, OF hb]
  have b: "post_chats ?b 10 2 db_one_chat
     = (Inl (HTTPException 400 ''A direct chat requires 2 participants''), db_one_chat)" .
  from inst [where b = "?c", THEN conjunct2, THEN conjunct2, THEN mp, OF hc]
  obtain doc where "fst (post_chats ?c 10 2 db_one_chat) = Inr (Some doc)"
    and "map_of doc ''participants'' = Some (VList [])"
    by auto
  with a b show ?thesis by blast
qed

text \<open>
  C6 as stated fails for \<^verbatim>\<open>is_group\<close> true: a body with the empty \<^verbatim>\<open>participants\<close> list
  is accepted and the chat is stored.
\<close>

theorem post_chats_empty_group_counterexample:
  "fst (post_chats \<lparr>body_participants = Some [], body_title = None, body_is_group = Some True\<rparr>
        10 1 db_empty)
     = Inr (Some [(''id'', VStr ''000000000000000000000001''), (''participants'', VList []),
                  (''title'', VNone), (''is_group'', VBool True), (''created_at'', VTime 10),
                  (''updated_at'', VTime 10)]) \<and>
   snd (post_chats \<lparr>body_participants = Some [], body_title = None, body_is_group = Some True\<rparr>
        10 1 db_empty) ''chat''
     = [[(''_id'', VOid (oid_bytes 1)), (''participants'', VList []), (''title'', VNone),
         (''is_group'', VBool True), (''created_at'', VTime 10), (''updated_at'', VTime 10)]]"
  unfolding db_empty_def by code_simp

text \<open>
  C7 (as amended). \<^verbatim>\<open>content\<close> is required: a send-message body without it fails shape
  validation (422) and nothing is stored. It need not be non-empty: a body whose
  \<^verbatim>\<open>content\<close> is the empty string passes validation, and when the chat exists, the
  sender is one of its participants and the store takes the new document, the message is
  stored and returned with the empty \<^verbatim>\<open>content\<close>.
\<close>

theorem post_messages_content:
  "(body_content b = None \<longrightarrow>
      post_messages b now oid db = (Inl RequestValidationError, db) \<and>
      status_code RequestValidationError = 422) \<and>
   (body_chat_id b = Some cs \<and> body_sender_id b = Some s \<and> body_content b = Some [] \<and>
    ObjectId cs = Inr c \<and> find_one ''chat'' (VOid c) db = Some chat \<and>
    map_of chat ''participants'' = Some (VList ps) \<and> VStr s \<in> set ps \<and>
    \<not> list_ex (has_id (VOid (oid_bytes oid))) (db ''message'') \<longrightarrow>
      (\<exists>out msg db'. post_messages b now oid db = (Inr (Some out), db') \<and>
         db' ''message'' = db ''message'' @ [msg] \<and>
         map_of msg ''content'' = Some (VStr []) \<and>
         map_of out ''content'' = Some (VStr []) \<and>
         map_of out ''id'' = Some (VStr (str_oid (oid_bytes oid)))))"
proof (intro conjI impI)
  assume "body_content b = None"
  then show "post_messages b now oid db = (Inl RequestValidationError, db)"
    by (simp add: post_messages_def CreateMessage_validate_def split: option.splits)
next
  show "status_code RequestValidationError = 422" by simp
next
  assume h: "body_chat_id b = Some cs \<and> body_sender_id b = Some s \<and> body_content b = Some [] \<and>
    ObjectId cs = Inr c \<and> find_one ''chat'' (VOid c) db = Some chat \<and>
    map_of chat ''participants'' = Some (VList ps) \<and> VStr s \<in> set ps \<and>
    \<not> list_ex (has_id (VOid (oid_bytes oid))) (db ''message'')"
  let ?p = "\<lparr>chat_id = cs, sender_id = s, content = [],
             msg_type = (case body_type b of None \<Rightarrow> ''text'' | Some ty \<Rightarrow> ty)\<rparr>"
  let ?msg = "stored_doc (CreateMessage_dump ?p) now oid"
  have v: "CreateMessage_validate b = Inr ?p"
    using h by (simp add: CreateMessage_validate_def)
  have c: "ObjectId (chat_id ?p) = Inr c" using h by simp
  have chat: "find_one ''chat'' (VOid c) db = Some chat" using h by simp
  have mem: "py_contains (VStr (sender_id ?p)) (dict_get_default chat ''participants'' (VList []))
      = Inr True"
    using h by (simp add: dict_get_default_def)
  have fresh: "\<not> list_ex (has_id (VOid (oid_bytes oid))) (db ''message'')" using h by simp
  have run: "post_messages b now oid db
      = (Inr (Some (serialize_dict ?msg)), after_send ?p now oid c db)"
    using send_message_success [OF c chat mem fresh, of now]
    by (simp add: post_messages_def v serialize_def)
  have msgs: "after_send ?p now oid c db ''message'' = db ''message'' @ [?msg]"
    by (simp add: after_send_def update_one_def)
  have "map_of ?msg ''content'' = Some (VStr [])"
    by (simp add: stored_message)
  moreover have "map_of (serialize_dict ?msg) ''content'' = Some (VStr [])"
    "map_of (serialize_dict ?msg) ''id'' = Some (VStr (str_oid (oid_bytes oid)))"
    by (simp_all add: serialize_stored_message)
  ultimately show "\<exists>out msg db'. post_messages b now oid db = (Inr (Some out), db') \<and>
         db' ''message'' = db ''message'' @ [msg] \<and>
         map_of msg ''content'' = Some (VStr []) \<and>
         map_of out ''content'' = Some (VStr []) \<and>
         map_of out ''id'' = Some (VStr (str_oid (oid_bytes oid)))"
    using run msgs by blast
qed

theorem post_messages_content_witness:
  "post_messages \<lparr>body_chat_id = Some ''000000000000000000000001'', body_sender_id = Some ''A'',
                  body_content = None, body_type = None\<rparr> 20 7 db_one_chat
     = (Inl RequestValidationError, db_one_chat) \<and>
   (\<exists>out db'. post_messages \<lparr>body_chat_id = Some ''000000000000000000000001'',
                   body_sender_id = Some ''A'', body_content = Some [], body_type = None\<rparr>
                 20 7 db_one_chat = (Inr (Some out), db') \<and>
      length (db' ''message'') = 1 \<and> map_of out ''content'' = Some (VStr []))"
proof -
  let ?a = "\<lparr>body_chat_id = Some ''000000000000000000000001'', body_sender_id = Some ''A'',
                  body_content = None, body_type = None\<rparr>"
  let ?b = "\<lparr>body_chat_id = Some ''000000000000000000000001'',
                   body_sender_id = Some ''A'', body_content = Some [], body_type = None\<rparr>"
  have ha: "body_content ?a = None" by simp
  have hb: "body_chat_id ?b = Some ''000000000000000000000001'' \<and> body_sender_id ?b = Some ''A'' \<and>
    body_content ?b = Some [] \<and>
    ObjectId ''000000000000000000000001'' = Inr (oid_bytes 1) \<and>
    find_one ''chat'' (VOid (oid_bytes 1)) db_one_chat = Some chat_AB \<and>
    map_of chat_AB ''participants'' = Some (VList [VStr ''A'', VStr ''B'']) \<and>
    VStr ''A'' \<in> set [VStr ''A'', VStr ''B''] \<and>
    \<not> list_ex (has_id (VOid (oid_bytes 7))) (db_one_chat ''message'')"
    by (simp add: ObjectId_1 find_chat_1 no_message_yet) (simp add: chat_AB_def)
  note inst = post_messages_content [where now = 20 and oid = 7 and db = db_one_chat]
  from inst [where b = "?a", THEN conjunct1, THEN mp, OF ha]
  have a: "post_messages ?a 20 7 db_one_chat = (Inl RequestValidationError, db_one_chat)" by simp
  from inst [where b = "?b", THEN conjunct2, THEN mp, OF hb]
  obtain out msg db' where "post_messages ?b 20 7 db_one_chat = (Inr (Some out), db')"
    and "db' ''message'' = db_one_chat ''message'' @ [msg]"
    and "map_of out ''content'' = Some (VStr [])"
    by blast
  then have "post_messages ?b 20 7 db_one_chat = (Inr (Some out), db')"
    and "length (db' ''message'') = 1" and "map_of out ''content'' = Some (VStr [])"
    by (simp_all add: db_one_chat_def db_empty_def)
  with a show ?thesis by blast
qed

text \<open>
  C7 as stated fails: the body with \<^verbatim>\<open>content\<close> empty, sent by participant \<^verbatim>\<open>A\<close> to
  the chat of the example store, is accepted and the message is stored.
\<close>

theorem post_messages_empty_content_counterexample:
  "fst (post_messages \<lparr>body_chat_id = Some ''000000000000000000000001'',
          body_sender_id = Some ''A'', body_content = Some [], body_type = None\<rparr>
        20 7 db_one_chat)
     = Inr (Some [(''id'', VStr ''000000000000000000000007''),
                  (''chat_id'', VStr ''000000000000000000000001''), (''sender_id'', VStr ''A''),
                  (''content'', VStr []), (''type'', VStr ''text''), (''created_at'', VTime 20),
                  (''updated_at'', VTime 20)]) \<and>
   snd (post_messages \<lparr>body_chat_id = Some ''000000000000000000000001'',
          body_sender_id = Some ''A'', body_content = Some [], body_type = None\<rparr>
        20 7 db_one_chat) ''message''
     = [[(''_id'', VOid (oid_bytes 7)), (''chat_id'', VStr ''000000000000000000000001''),
         (''sender_id'', VStr ''A''), (''content'', VStr []), (''type'', VStr ''text''),
         (''created_at'', VTime 20), (''updated_at'', VTime 20)]]"
  unfolding db_one_chat_def db_empty_def chat_AB_def by code_simp

section \<open>Listing messages and chats\<close>

text \<open>On timestamps Python's sort is the library's stable insertion sort.\<close>

lemma py_insort_times:
  assumes "is_time (key x)" and "\<forall>y\<in>set ys. is_time (key y)"
  shows "py_insort key x ys = Inr (insort_key (\<lambda>d. time_of (key d)) x ys)"
  using assms
proof (induction ys)
  case Nil
  then show ?case by simp
next
  case (Cons y ys)
  from Cons.prems obtain s t where "key x = VTime s" "key y = VTime t"
    by (cases "key x"; cases "key y") auto
  with Cons show ?case by auto
qed

lemma py_sorted_times:
  assumes "\<forall>x\<in>set xs. is_time (key x)"
  shows "py_sorted key xs = Inr (sort_key (\<lambda>d. time_of (key d)) xs)"
  using assms
proof (induction xs)
  case Nil
  then show ?case by simp
next
  case (Cons x xs)
  then have "py_sorted key xs = Inr (sort_key (\<lambda>d. time_of (key d)) xs)" by simp
  moreover have "py_insort key x (sort_key (\<lambda>d. time_of (key d)) xs)
      = Inr (insort_key (\<lambda>d. time_of (key d)) x (sort_key (\<lambda>d. time_of (key d)) xs))"
    using Cons.prems by (intro py_insort_times) simp_all
  ultimately show ?case by simp
qed

lemma py_sorted_reverse_times:
  assumes "\<forall>x\<in>set xs. is_time (key x)"
  shows "py_sorted_reverse key xs = Inr (rev (sort_key (\<lambda>d. time_of (key d)) (rev xs)))"
  using assms by (simp add: py_sorted_reverse_def py_sorted_times)

lemma not_after_times: "is_time a \<Longrightarrow> is_time b \<Longrightarrow> not_after a b = (time_of a \<le> time_of b)"
  by (cases a; cases b) simp_all

lemma fold_serialize_step_lookup:
  "distinct (map fst d) \<Longrightarrow> k \<noteq> ''_id'' \<Longrightarrow> k \<noteq> ''id'' \<Longrightarrow>
   map_of (fold serialize_step d acc) k
     = (case map_of d k of None \<Rightarrow> map_of acc k | Some v \<Rightarrow> Some (oid_str v))"
proof (induction d arbitrary: acc)
  case Nil
  then show ?case by simp
next
  case (Cons kv d)
  obtain k0 v0 where kv: "kv = (k0, v0)" by (cases kv)
  have step: "map_of (serialize_step (k0, v0) acc) k
      = (if k0 = k then Some (oid_str v0) else map_of acc k)"
    using Cons.prems(2,3)
    by (auto simp: serialize_step_update out_field_def out_key_def update_conv')
  have d: "distinct (map fst d)" using Cons.prems(1) by simp
  show ?case
  proof (cases "k0 = k")
    case True
    then have "map_of d k = None"
      using Cons.prems(1) by (simp add: kv map_of_eq_None_iff)
    with True step show ?thesis
      by (simp add: Cons.IH [OF d Cons.prems(2,3)] kv)
  next
    case False
    with step show ?thesis
      by (simp add: Cons.IH [OF d Cons.prems(2,3)] kv split: option.splits)
  qed
qed

lemma dict_get_serialize_time:
  assumes "wf_doc d" and "k \<noteq> ''_id''" and "k \<noteq> ''id''" and "is_time (dict_get d k)"
  shows "dict_get (serialize_dict d) k = dict_get d k"
proof -
  from assms(4) obtain t where t: "map_of d k = Some (VTime t)"
    by (cases "map_of d k"; cases "dict_get d k") (auto simp: dict_get_def)
  then have "d \<noteq> []" by auto
  then have "map_of (serialize_dict d) k = Some (VTime t)"
    using fold_serialize_step_lookup [OF assms(1) [unfolded wf_doc_def] assms(2,3), of "[]"] t
    by (simp add: serialize_dict_def)
  with t show ?thesis by (simp add: dict_get_def)
qed

lemma sorted_outputs:
  assumes st: "\<forall>d\<in>set ds. stamped field d" and f: "field \<noteq> ''_id''" "field \<noteq> ''id''"
    and so: "sorted (map (\<lambda>d. time_of (dict_get d field)) ds)"
  shows "sorted_wrt (\<lambda>a b. not_after (dict_get a field) (dict_get b field))
           (map serialize_dict ds)"
proof -
  have key: "\<And>d. d \<in> set ds \<Longrightarrow> dict_get (serialize_dict d) field = dict_get d field"
    using st f by (simp add: stamped_def dict_get_serialize_time)
  have "sorted_wrt (\<lambda>a b. time_of (dict_get a field) \<le> time_of (dict_get b field)) ds"
    using so by (simp add: sorted_map)
  then have "sorted_wrt (\<lambda>a b. not_after (dict_get (serialize_dict a) field)
      (dict_get (serialize_dict b) field)) ds"
  proof (rule sorted_wrt_mono_rel [rotated])
    fix a b assume "a \<in> set ds" "b \<in> set ds"
      and "time_of (dict_get a field) \<le> time_of (dict_get b field)"
    with st key show "not_after (dict_get (serialize_dict a) field)
        (dict_get (serialize_dict b) field)"
      by (simp add: not_after_times stamped_def)
  qed
  then show ?thesis by (simp add: sorted_wrt_map)
qed

lemma get_documents_Eq:
  "get_documents rx coll [(k, Eq v)] db = filter (\<lambda>d. match_eq (map_of d k) v) (db coll)"
  by (simp add: get_documents_def matches_def [abs_def])

lemma sorted_wrt_flip_rev:
  "sorted_wrt (\<lambda>a b. P b a) (rev xs) = sorted_wrt P xs"
  by (simp add: sorted_wrt_rev)

text \<open>
  Every store the handlers produce is stamped: the empty store is, and each writing
  handler, whether it succeeds or raises, leaves a stamped store stamped.
\<close>

lemma wf_store_empty: "wf_store (\<lambda>_. [])"
  by (simp add: wf_store_def)

lemma stamped_stored_chat: "stamped ''updated_at'' (stored_doc (CreateChat_dump p) now oid)"
  by (simp add: stored_chat stamped_def wf_doc_def dict_get_def)

lemma stamped_stored_message: "stamped ''created_at'' (stored_doc (CreateMessage_dump p) now oid)"
  by (simp add: stored_message stamped_def wf_doc_def dict_get_def)

lemma stamped_touch:
  assumes "stamped ''updated_at'' d"
  shows "stamped ''updated_at'' (AList.update ''updated_at'' (VTime t) d)"
  using assms by (simp add: stamped_def wf_doc_def distinct_update dict_get_def update_conv')

lemma list_all_update_first:
  "list_all Q ds \<Longrightarrow> (\<And>d. Q d \<Longrightarrow> Q (f d)) \<Longrightarrow> list_all Q (update_first P f ds)"
  by (induction ds) simp_all

lemma wf_store_after_send:
  assumes "wf_store db"
  shows "wf_store (after_send p now oid c db)"
proof -
  have "list_all (stamped ''created_at'')
      (db ''message'' @ [stored_doc (CreateMessage_dump p) now oid])"
    using assms by (simp add: wf_store_def stamped_stored_message)
  moreover have "list_all (stamped ''updated_at'')
      (update_first (has_id (VOid c)) (AList.update ''updated_at'' (VTime now)) (db ''chat''))"
    using assms by (intro list_all_update_first) (simp_all add: wf_store_def stamped_touch)
  ultimately show ?thesis
    by (simp add: wf_store_def after_send_def update_one_def)
qed

lemma create_user_store:
  "snd (create_user p now oid db) = db \<or>
   snd (create_user p now oid db) = db(''user'' := db ''user'' @ [stored_doc (CreateUser_dump p) now oid])"
  by (simp add: create_user_def create_document_eq ObjectId_generated)

lemma create_chat_store:
  "snd (create_chat p now oid db) = db \<or>
   snd (create_chat p now oid db) = db(''chat'' := db ''chat'' @ [stored_doc (CreateChat_dump p) now oid])"
  by (simp add: create_chat_def create_document_eq ObjectId_generated)

lemma send_message_store:
  "snd (send_message p now oid db) = db \<or>
   (\<exists>c. snd (send_message p now oid db) = after_send p now oid c db)"
proof (cases "fst (send_message p now oid db)")
  case (Inl e)
  then have "snd (send_message p now oid db) = db"
    by (auto simp: send_message_def create_document_eq message_created_at_new ObjectId_generated
        Let_def dest: find_one_has_id split: sum.splits option.splits if_splits)
  then show ?thesis ..
next
  case (Inr out)
  then have "send_message p now oid db = (Inr out, snd (send_message p now oid db))"
    by (metis prod.collapse)
  from send_message_Inr [OF this] show ?thesis by blast
qed

lemma reachable_wf_store: "reachable db \<Longrightarrow> wf_store db"
proof (induction rule: reachable.induct)
  case reachable_empty
  show ?case by (rule wf_store_empty)
next
  case (reachable_create_user db p now oid)
  with create_user_store [of p now oid db] show ?case
    by (auto simp: wf_store_def)
next
  case (reachable_create_chat db c now oid)
  with create_chat_store [of c now oid db] show ?case
    by (auto simp: wf_store_def stamped_stored_chat)
next
  case (reachable_send_message db m now oid)
  with send_message_store [of m now oid db] show ?case
    by (auto simp: wf_store_after_send)
qed

text \<open>
  C4. In every stamped store, and so in every store the service produces, listing the
  messages of a \<^verbatim>\<open>chat_id\<close> returns without error exactly the messages that match it,
  normalized, in non-decreasing order of \<^verbatim>\<open>created_at\<close>; listing the chats of a
  \<^verbatim>\<open>user_id\<close> returns without error exactly the chats whose \<^verbatim>\<open>participants\<close> contain
  it, normalized, in non-increasing order of \<^verbatim>\<open>updated_at\<close>. A chat that never received
  a message is in the list with the \<^verbatim>\<open>updated_at\<close> it got at creation
  (\<open>stamped_stored_chat\<close>).
\<close>

theorem listings_sorted:
  assumes "wf_store db"
  shows "(\<exists>ms. list_messages rx cid db = Inr ms \<and>
            mset ms = mset (map serialize_dict
                        (filter (\<lambda>d. match_eq (map_of d ''chat_id'') (VStr cid)) (db ''message''))) \<and>
            sorted_wrt (\<lambda>a b. not_after (dict_get a ''created_at'') (dict_get b ''created_at'')) ms) \<and>
         (\<exists>cs. list_chats rx uid db = Inr cs \<and>
            mset cs = mset (map serialize_dict
                        (filter (\<lambda>d. match_eq (map_of d ''participants'') (VStr uid)) (db ''chat''))) \<and>
            sorted_wrt (\<lambda>a b. not_after (dict_get b ''updated_at'') (dict_get a ''updated_at'')) cs)"
proof
  let ?f = "\<lambda>d. time_of (dict_get d ''created_at'')"
  let ?docs = "filter (\<lambda>d. match_eq (map_of d ''chat_id'') (VStr cid)) (db ''message'')"
  have docs: "get_documents rx ''message'' [(''chat_id'', Eq (VStr cid))] db = ?docs"
    by (rule get_documents_Eq)
  have st: "\<forall>d\<in>set ?docs. stamped ''created_at'' d"
    using assms by (simp add: wf_store_def list_all_iff)
  then have times: "\<forall>d\<in>set ?docs. is_time (dict_get d ''created_at'')"
    by (simp add: stamped_def)
  have run: "list_messages rx cid db = Inr (map serialize_dict (sort_key ?f ?docs))"
    by (simp add: list_messages_def docs py_sorted_times [OF times])
  have st': "\<forall>d\<in>set (sort_key ?f ?docs). stamped ''created_at'' d"
    using st by simp
  have "sorted_wrt (\<lambda>a b. not_after (dict_get a ''created_at'') (dict_get b ''created_at''))
      (map serialize_dict (sort_key ?f ?docs))"
    by (rule sorted_outputs [OF st']) (simp_all add: sorted_sort_key)
  moreover have "mset (map serialize_dict (sort_key ?f ?docs)) = mset (map serialize_dict ?docs)"
    by simp
  ultimately show "\<exists>ms. list_messages rx cid db = Inr ms \<and>
            mset ms = mset (map serialize_dict ?docs) \<and>
            sorted_wrt (\<lambda>a b. not_after (dict_get a ''created_at'') (dict_get b ''created_at'')) ms"
    using run by blast
next
  let ?f = "\<lambda>d. time_of (dict_get d ''updated_at'')"
  let ?docs = "filter (\<lambda>d. match_eq (map_of d ''participants'') (VStr uid)) (db ''chat'')"
  let ?sorted = "sort_key ?f (rev ?docs)"
  have docs: "get_documents rx ''chat'' [(''participants'', Eq (VStr uid))] db = ?docs"
    by (rule get_documents_Eq)
  have st: "\<forall>d\<in>set ?docs. stamped ''updated_at'' d"
    using assms by (simp add: wf_store_def list_all_iff)
  then have times: "\<forall>d\<in>set ?docs. is_time (dict_get d ''updated_at'')"
    by (simp add: stamped_def)
  have run: "list_chats rx uid db = Inr (map serialize_dict (rev ?sorted))"
    by (simp add: list_chats_def docs py_sorted_reverse_times [OF times])
  have st': "\<forall>d\<in>set ?sorted. stamped ''updated_at'' d"
    using st by simp
  have "sorted_wrt (\<lambda>a b. not_after (dict_get a ''updated_at'') (dict_get b ''updated_at''))
      (map serialize_dict ?sorted)"
    by (rule sorted_outputs [OF st']) (simp_all add: sorted_sort_key)
  then have "sorted_wrt (\<lambda>a b. not_after (dict_get b ''updated_at'') (dict_get a ''updated_at''))
      (rev (map serialize_dict ?sorted))"
    by (simp only: sorted_wrt_flip_rev)
  then have "sorted_wrt (\<lambda>a b. not_after (dict_get b ''updated_at'') (dict_get a ''updated_at''))
      (map serialize_dict (rev ?sorted))"
    by (simp add: rev_map)
  moreover have "mset (map serialize_dict (rev ?sorted)) = mset (map serialize_dict ?docs)"
    by simp
  ultimately show "\<exists>cs. list_chats rx uid db = Inr cs \<and>
            mset cs = mset (map serialize_dict ?docs) \<and>
            sorted_wrt (\<lambda>a b. not_after (dict_get b ''updated_at'') (dict_get a ''updated_at'')) cs"
    using run by blast
qed

lemma wf_store_history: "wf_store db_history"
  by (simp add: wf_store_def db_history_def db_empty_def stamped_def wf_doc_def dict_get_def
      chat_AB_def chat_AC_def message_late_def message_early_def)

lemma list_messages_history:
  "list_messages no_regex ''000000000000000000000001'' db_history
     = Inr [serialize_dict message_early, serialize_dict message_late]"
  unfolding db_history_def db_empty_def chat_AB_def chat_AC_def message_late_def
    message_early_def no_regex_def
  by code_simp

lemma list_chats_history:
  "list_chats no_regex ''A'' db_history = Inr [serialize_dict chat_AC, serialize_dict chat_AB]"
  unfolding db_history_def db_empty_def chat_AB_def chat_AC_def message_late_def
    message_early_def no_regex_def
  by code_simp

theorem listings_sorted_witness:
  "wf_store db_history \<and>
   list_messages no_regex ''000000000000000000000001'' db_history
     = Inr [serialize_dict message_early, serialize_dict message_late] \<and>
   sorted_wrt (\<lambda>a b. not_after (dict_get a ''created_at'') (dict_get b ''created_at''))
     [serialize_dict message_early, serialize_dict message_late] \<and>
   list_chats no_regex ''A'' db_history = Inr [serialize_dict chat_AC, serialize_dict chat_AB] \<and>
   sorted_wrt (\<lambda>a b. not_after (dict_get b ''updated_at'') (dict_get a ''updated_at''))
     [serialize_dict chat_AC, serialize_dict chat_AB]"
proof -
  note inst = listings_sorted [OF wf_store_history,
      where rx = no_regex and cid = "''000000000000000000000001''" and uid = "''A''"]
  from inst [THEN conjunct1] list_messages_history
  have m: "sorted_wrt (\<lambda>a b. not_after (dict_get a ''created_at'') (dict_get b ''created_at''))
     [serialize_dict message_early, serialize_dict message_late]"
    by auto
  from inst [THEN conjunct2] list_chats_history
  have c: "sorted_wrt (\<lambda>a b. not_after (dict_get b ''updated_at'') (dict_get a ''updated_at''))
     [serialize_dict chat_AC, serialize_dict chat_AB]"
    by auto
  from wf_store_history list_messages_history m list_chats_history c show ?thesis
    by (intro conjI)
qed

end
